theory Spec2Isabelle
  imports Main "HOL-Library.AList" "HOL-Library.Sublist"
begin

section \<open>Python values\<close>

text \<open>
  The client is dynamically typed: every argument of the constructor and of the public
  methods may hold any object, and the code tests them with truthiness and
  \<^verbatim>\<open>isinstance\<close>. The values modelled are \<^verbatim>\<open>None\<close>, booleans, (unbounded)
  integers, strings and lists. Characters stand for the code points 0 to 255.
\<close>

datatype pyval =
    PNone
  | PBool bool
  | PInt int
  | PStr string
  | PList "pyval list"

datatype pytype = TNoneType | TBool | TInt | TStr | TList

fun type_of :: "pyval \<Rightarrow> pytype" where
  "type_of PNone = TNoneType"
| "type_of (PBool b) = TBool"
| "type_of (PInt i) = TInt"
| "type_of (PStr s) = TStr"
| "type_of (PList xs) = TList"

fun type_name :: "pytype \<Rightarrow> string" where
  "type_name TNoneType = ''NoneType''"
| "type_name TBool = ''bool''"
| "type_name TInt = ''int''"
| "type_name TStr = ''str''"
| "type_name TList = ''list''"

text \<open>\<^verbatim>\<open>isinstance(v, t)\<close>: \<^verbatim>\<open>bool\<close> is a subclass of \<^verbatim>\<open>int\<close>.\<close>

definition isinstance :: "pyval \<Rightarrow> pytype \<Rightarrow> bool" where
  "isinstance v t = (type_of v = t \<or> (type_of v = TBool \<and> t = TInt))"

text \<open>Truth value of an object, as \<^verbatim>\<open>if v:\<close> tests it.\<close>

fun truthy :: "pyval \<Rightarrow> bool" where
  "truthy PNone = False"
| "truthy (PBool b) = b"
| "truthy (PInt i) = (i \<noteq> 0)"
| "truthy (PStr s) = (s \<noteq> [])"
| "truthy (PList xs) = (xs \<noteq> [])"

subsection \<open>Conversion to text\<close>

definition digit_char :: "nat \<Rightarrow> char" where
  "digit_char d = ''0123456789abcdef'' ! d"

fun str_nat :: "nat \<Rightarrow> string" where
  "str_nat n = (if n < 10 then [digit_char n] else str_nat (n div 10) @ [digit_char (n mod 10)])"

declare str_nat.simps [simp del]

definition str_int :: "int \<Rightarrow> string" where
  "str_int i = (if i < 0 then CHR ''-'' # str_nat (nat (- i)) else str_nat (nat i))"

text \<open>
  \<^verbatim>\<open>repr\<close> of a string: single quotes unless the string holds a single quote and no
  double quote; the quote and the backslash are escaped, tab, newline and carriage
  return are written \<^verbatim>\<open>\t \n \r\<close>, every other non-printable code point as
  \<^verbatim>\<open>\xhh\<close>.
\<close>

definition printable :: "char \<Rightarrow> bool" where
  "printable c = (let n = (of_char c :: nat) in
     (32 \<le> n \<and> n < 127) \<or> (161 \<le> n \<and> n \<noteq> 173))"

definition repr_char :: "char \<Rightarrow> char \<Rightarrow> string" where
  "repr_char q c =
     (if c = q \<or> c = CHR 0x5C then [CHR 0x5C, c]
      else if c = CHR 0x09 then [CHR 0x5C, CHR ''t'']
      else if c = CHR 0x0A then [CHR 0x5C, CHR ''n'']
      else if c = CHR 0x0D then [CHR 0x5C, CHR ''r'']
      else if printable c then [c]
      else [CHR 0x5C, CHR ''x'', digit_char (of_char c div 16), digit_char (of_char c mod 16)])"

definition repr_str :: "string \<Rightarrow> string" where
  "repr_str s =
     (let q = (if CHR 0x27 \<in> set s \<and> CHR 0x22 \<notin> set s then CHR 0x22 else CHR 0x27)
      in [q] @ concat (map (repr_char q) s) @ [q])"

text \<open>\<^verbatim>\<open>sep.join(ss)\<close> on a list of strings.\<close>

fun join_strs :: "string \<Rightarrow> string list \<Rightarrow> string" where
  "join_strs sep [] = []"
| "join_strs sep [s] = s"
| "join_strs sep (s # t # ss) = s @ sep @ join_strs sep (t # ss)"

text \<open>
  \<^verbatim>\<open>str(v)\<close>, which is also what \<^verbatim>\<open>'{0}'.format(v)\<close> inserts; \<^verbatim>\<open>repr(v)\<close> differs
  on strings only, and a list prints the \<^verbatim>\<open>repr\<close> of its elements.
\<close>

fun py_str :: "pyval \<Rightarrow> string"
  and py_repr :: "pyval \<Rightarrow> string" where
  "py_str PNone = ''None''"
| "py_str (PBool b) = (if b then ''True'' else ''False'')"
| "py_str (PInt i) = str_int i"
| "py_str (PStr s) = s"
| "py_str (PList xs) = ''['' @ join_strs '', '' (map py_repr xs) @ '']''"
| "py_repr PNone = ''None''"
| "py_repr (PBool b) = (if b then ''True'' else ''False'')"
| "py_repr (PInt i) = str_int i"
| "py_repr (PStr s) = repr_str s"
| "py_repr (PList xs) = ''['' @ join_strs '', '' (map py_repr xs) @ '']''"

section \<open>Exceptions\<close>

text \<open>
  The exception classes of the module (lines 12 to 39), the two built-in classes the
  methods raise, and \<^verbatim>\<open>RequestException\<close> for whatever the HTTP library raises.
\<close>

datatype exc_class =
    PyException
  | TypeError
  | ValueError
  | RequestException
  | TriageError
  | TriageStateError
  | TriageClientError
  | TriageAuthError
  | TriageServerError
  | TriageFailureError

text \<open>The base class each class statement names.\<close>

fun base_class :: "exc_class \<Rightarrow> exc_class option" where
  "base_class PyException = None"
| "base_class TypeError = Some PyException"
| "base_class ValueError = Some PyException"
| "base_class RequestException = Some PyException"
| "base_class TriageError = Some PyException"
| "base_class TriageStateError = Some TriageError"
| "base_class TriageClientError = Some TriageError"
| "base_class TriageAuthError = Some TriageClientError"
| "base_class TriageServerError = Some TriageError"
| "base_class TriageFailureError = Some TriageError"

text \<open>
  \<^verbatim>\<open>issubclass(c, d)\<close>: \<open>d\<close> is reached from \<open>c\<close> along the base classes. The
  hierarchy is three levels deep below \<^verbatim>\<open>Exception\<close>, so four steps reach every
  ancestor.
\<close>

fun ancestors :: "nat \<Rightarrow> exc_class \<Rightarrow> exc_class list" where
  "ancestors 0 c = [c]"
| "ancestors (Suc n) c =
     c # (case base_class c of None \<Rightarrow> [] | Some b \<Rightarrow> ancestors n b)"

definition issubclass :: "exc_class \<Rightarrow> exc_class \<Rightarrow> bool" where
  "issubclass c d = (d \<in> set (ancestors 4 c))"

datatype exc = Exc (exc_cls: exc_class) (exc_msg: string)

text \<open>\<^verbatim>\<open>__name__\<close> of the package.\<close>

definition name_of_module :: string where
  "name_of_module = ''triagelib''"

section \<open>Session, requests and responses\<close>

record request =
  req_method :: string
  req_url :: string
  req_headers :: "(string \<times> string) list"

record response =
  status_code :: int
  resp_text :: string
  content :: string

text \<open>
  The world outside the module. \<open>send\<close> stands for \<^verbatim>\<open>req.prepare()\<close> followed by
  \<^verbatim>\<open>Session().send(prep, verify=False)\<close>: it answers a request with a response, or
  raises. \<open>loads\<close> stands for \<^verbatim>\<open>json.loads\<close>; \<open>None\<close> is its \<^verbatim>\<open>ValueError\<close>.
  The requests handed to \<open>send\<close> are recorded, in order, in a list that every
  operation takes and returns.
\<close>

record 'j env =
  send :: "request \<Rightarrow> exc + response"
  loads :: "string \<Rightarrow> 'j option"

record session =
  triagehost :: pyval
  usessl :: bool
  userag :: string
  email :: pyval
  apikey :: pyval
  headers :: "(string \<times> string) list"

definition apiver :: string where
  "apiver = ''1.0.0''"

text \<open>\<^verbatim>\<open>TriageSession.__init__\<close> (lines 48 to 67).\<close>

definition TriageSession_init ::
  "pyval \<Rightarrow> pyval \<Rightarrow> pyval \<Rightarrow> pyval \<Rightarrow> pyval \<Rightarrow> exc + session" where
  "TriageSession_init host eml key ssl uag =
     (if \<not> isinstance ssl TBool
      then Inl (Exc TypeError (name_of_module @ '': ssl parameter must be True or False''))
      else if \<not> isinstance uag TStr
      then Inl (Exc TypeError (name_of_module @ '': uag parameter must be a string''))
      else Inr \<lparr>triagehost = host,
                usessl = truthy ssl,
                userag = py_str uag,
                email = eml,
                apikey = key,
                headers = [(''Accept'', ''application/vnd.ve.v1.0+json''),
                           (''VE-API-Version'', apiver),
                           (''user-agent'', py_str uag),
                           (''Authorization'',
                              ''Token token='' @ py_str eml @ '':'' @ py_str key)]\<rparr>)"

text \<open>The defaults of the constructor's last two parameters.\<close>

definition default_ssl :: pyval where
  "default_ssl = PBool True"

definition default_uag :: pyval where
  "default_uag = PStr ''Python CoFense Triage Client''"

subsection \<open>Sending and classifying\<close>

definition auth_error_msg :: "pyval \<Rightarrow> string" where
  "auth_error_msg host =
     name_of_module @ '': Could not authenticate to Triage box '' @ py_str host @ ''.''"

definition http_error_desc :: "session \<Rightarrow> int \<Rightarrow> string" where
  "http_error_desc s code =
     name_of_module @ '': Triage box '' @ py_str (triagehost s)
       @ '' returned HTTP error '' @ str_int code @ ''.''"

text \<open>The status tests of \<^verbatim>\<open>_reqsend\<close> (lines 83 to 98) on a response.\<close>

definition classify :: "session \<Rightarrow> pyval \<Rightarrow> response \<Rightarrow> exc + response" where
  "classify s host resp =
     (if status_code resp = 401
      then Inl (Exc TriageAuthError (auth_error_msg host))
      else if status_code resp \<noteq> 200
      then (if 400 \<le> status_code resp \<and> status_code resp < 500
            then Inl (Exc TriageClientError (http_error_desc s (status_code resp)))
            else if 500 \<le> status_code resp \<and> status_code resp < 600
            then Inl (Exc TriageServerError (http_error_desc s (status_code resp)))
            else Inl (Exc TriageError (http_error_desc s (status_code resp))))
      else Inr resp)"

text \<open>\<^verbatim>\<open>TriageSession._reqsend\<close> (lines 69 to 98).\<close>

definition reqsend ::
  "'j env \<Rightarrow> session \<Rightarrow> request \<Rightarrow> pyval \<Rightarrow> request list
     \<Rightarrow> (exc + response) \<times> request list" where
  "reqsend env s prep host w =
     (case send env prep of
        Inl e \<Rightarrow> (Inl e, w @ [prep])
      | Inr resp \<Rightarrow> (classify s host resp, w @ [prep]))"

subsection \<open>String operations that can raise\<close>

definition dquote :: string where
  "dquote = [CHR 0x22]"

text \<open>\<^verbatim>\<open>k + v\<close> for a string literal \<open>k\<close>: only a string can be appended.\<close>

definition cat :: "string \<Rightarrow> pyval \<Rightarrow> exc + string" where
  "cat k v =
     (case v of
        PStr t \<Rightarrow> Inr (k @ t)
      | _ \<Rightarrow> Inl (Exc TypeError (''can only concatenate str (not '' @ dquote
                 @ type_name (type_of v) @ dquote @ '') to str'')))"

text \<open>\<^verbatim>\<open>k + str(v)\<close>: never raises.\<close>

definition cat_str :: "string \<Rightarrow> pyval \<Rightarrow> exc + string" where
  "cat_str k v = Inr (k @ py_str v)"

text \<open>
  \<^verbatim>\<open>sep.join(v)\<close> on an object: a list is joined when all its items are strings, and
  the first item that is not one is reported; a string is joined character by
  character; nothing else is iterable.
\<close>

fun join_items :: "nat \<Rightarrow> pyval list \<Rightarrow> exc + string list" where
  "join_items i [] = Inr []"
| "join_items i (x # xs) =
     (case x of
        PStr t \<Rightarrow> (case join_items (Suc i) xs of Inl e \<Rightarrow> Inl e | Inr ts \<Rightarrow> Inr (t # ts))
      | _ \<Rightarrow> Inl (Exc TypeError (''sequence item '' @ str_nat i
                 @ '': expected str instance, '' @ type_name (type_of x) @ '' found'')))"

definition py_join :: "string \<Rightarrow> pyval \<Rightarrow> exc + string" where
  "py_join sep v =
     (case v of
        PList xs \<Rightarrow> (case join_items 0 xs of Inl e \<Rightarrow> Inl e | Inr ts \<Rightarrow> Inr (join_strs sep ts))
      | PStr t \<Rightarrow> Inr (join_strs sep (map (\<lambda>c. [c]) t))
      | _ \<Rightarrow> Inl (Exc TypeError ''can only join an iterable''))"

text \<open>\<^verbatim>\<open>k + ",".join(v)\<close>.\<close>

definition cat_join :: "string \<Rightarrow> pyval \<Rightarrow> exc + string" where
  "cat_join k v = (case py_join '','' v of Inl e \<Rightarrow> Inl e | Inr t \<Rightarrow> Inr (k @ t))"

text \<open>
  The statements \<^verbatim>\<open>if v: params.append(f(v))\<close>, run in order from
  \<^verbatim>\<open>params = []\<close>; the first one that raises ends the run.
\<close>

fun build_params :: "(pyval \<times> (pyval \<Rightarrow> exc + string)) list \<Rightarrow> exc + string list" where
  "build_params [] = Inr []"
| "build_params ((v, f) # rest) =
     (if truthy v
      then (case f v of
              Inl e \<Rightarrow> Inl e
            | Inr seg \<Rightarrow> (case build_params rest of Inl e \<Rightarrow> Inl e | Inr ps \<Rightarrow> Inr (seg # ps)))
      else build_params rest)"

section \<open>The public methods\<close>

definition type_error :: "string \<Rightarrow> exc" where
  "type_error m = Exc TypeError (name_of_module @ m)"

text \<open>\<^verbatim>\<open>'http{0}://{1}/api/public/v1/' + path\<close>, with the scheme and the host filled in.\<close>

definition api_url :: "session \<Rightarrow> string \<Rightarrow> string" where
  "api_url s path =
     ''http'' @ (if usessl s then ''s'' else []) @ ''://'' @ py_str (triagehost s)
       @ ''/api/public/v1/'' @ path"

text \<open>\<^verbatim>\<open>headers = self._headers.copy(); headers.update({'Content-Type': t})\<close>.\<close>

definition with_content_type :: "session \<Rightarrow> string \<Rightarrow> (string \<times> string) list" where
  "with_content_type s t = AList.update ''Content-Type'' t (headers s)"

text \<open>\<^verbatim>\<open>TriageSession._parse\<close> (lines 100 to 118).\<close>

definition json_error_msg :: "session \<Rightarrow> string" where
  "json_error_msg s =
     name_of_module @ '': Triage box '' @ py_str (triagehost s)
       @ '' did not return a valid json output.''"

definition parse :: "'j env \<Rightarrow> session \<Rightarrow> string \<Rightarrow> exc + 'j" where
  "parse env s src =
     (case loads env src of
        None \<Rightarrow> Inl (Exc TriageError (json_error_msg s))
      | Some res \<Rightarrow> Inr res)"

text \<open>
  The common end of the five JSON methods:
  \<^verbatim>\<open>resp = self._reqsend(prep, self._triagehost); return self._parse(resp.text)\<close>.
\<close>

definition fetch_json ::
  "'j env \<Rightarrow> session \<Rightarrow> request \<Rightarrow> request list \<Rightarrow> (exc + 'j) \<times> request list" where
  "fetch_json env s req w =
     (case reqsend env s req (triagehost s) w of
        (Inl e, w') \<Rightarrow> (Inl e, w')
      | (Inr resp, w') \<Rightarrow> (parse env s (resp_text resp), w'))"

subsection \<open>reports\<close>

text \<open>The checks of lines 138 to 157: the first that fails raises.\<close>

definition reports_validate ::
  "session \<Rightarrow> pyval \<Rightarrow> pyval \<Rightarrow> pyval \<Rightarrow> pyval \<Rightarrow> pyval \<Rightarrow> pyval \<Rightarrow> pyval \<Rightarrow> pyval
     \<Rightarrow> exc option" where
  "reports_validate s match_priority category_id start_date tags end_date page per_page report_id =
     (if \<not> isinstance (email s) TStr
      then Some (type_error '': email parameter must be a string'')
      else if \<not> isinstance (apikey s) TStr
      then Some (type_error '': apikey parameter must be a string'')
      else if truthy tags \<and> \<not> isinstance tags TList
      then Some (type_error '': tags parameter must be a list of strings'')
      else if truthy page \<and> \<not> isinstance page TInt
      then Some (type_error '': page parameter must be an integer'')
      else if truthy per_page \<and> \<not> isinstance per_page TInt
      then Some (type_error '': per_page parameter must be an integer'')
      else if truthy start_date \<and> \<not> isinstance start_date TStr
      then Some (type_error '': start_date parameter must be a string'')
      else if truthy end_date \<and> \<not> isinstance end_date TStr
      then Some (type_error '': end_date parameter must be a string'')
      else if truthy report_id \<and> \<not> isinstance report_id TInt
      then Some (type_error '': report_id parameter must be an integer'')
      else if truthy category_id \<and> \<not> isinstance category_id TInt
      then Some (type_error '': caterory_id parameter must be an integer'')
      else if truthy match_priority \<and> \<not> isinstance match_priority TInt
      then Some (type_error '': match_priority parameter must be an integer'')
      else None)"

text \<open>The query parameters of lines 159 to 167.\<close>

definition reports_params ::
  "pyval \<Rightarrow> pyval \<Rightarrow> pyval \<Rightarrow> pyval \<Rightarrow> pyval \<Rightarrow> pyval \<Rightarrow> pyval \<Rightarrow> exc + string list" where
  "reports_params match_priority category_id start_date tags end_date page per_page =
     build_params
       [(tags, cat_join ''tags=''),
        (page, cat_str ''page=''),
        (per_page, cat_str ''per_page=''),
        (start_date, cat ''start_date=''),
        (end_date, cat ''end_date=''),
        (match_priority, cat_str ''match_priority=''),
        (category_id, cat_str ''category_id='')]"

text \<open>The URL of lines 169 to 179.\<close>

definition reports_url :: "session \<Rightarrow> string list \<Rightarrow> pyval \<Rightarrow> string" where
  "reports_url s params report_id =
     (if truthy report_id then api_url s (''reports/'' @ py_str report_id)
      else if params \<noteq> [] then api_url s (''reports?'' @ join_strs ''&'' params)
      else api_url s ''reports'')"

text \<open>
  Lines 138 to 186: the request \<^verbatim>\<open>reports\<close> hands to \<^verbatim>\<open>_reqsend\<close>, or what it
  raises before.
\<close>

definition reports_request ::
  "session \<Rightarrow> pyval \<Rightarrow> pyval \<Rightarrow> pyval \<Rightarrow> pyval \<Rightarrow> pyval \<Rightarrow> pyval \<Rightarrow> pyval \<Rightarrow> pyval
     \<Rightarrow> exc + request" where
  "reports_request s match_priority category_id start_date tags end_date page per_page report_id =
     (case reports_validate s match_priority category_id start_date tags end_date page per_page
             report_id of
        Some e \<Rightarrow> Inl e
      | None \<Rightarrow>
          (case reports_params match_priority category_id start_date tags end_date page per_page of
             Inl e \<Rightarrow> Inl e
           | Inr params \<Rightarrow>
               Inr \<lparr>req_method = ''GET'',
                    req_url = reports_url s params report_id,
                    req_headers = with_content_type s ''application/json''\<rparr>))"

definition reports ::
  "'j env \<Rightarrow> session \<Rightarrow> pyval \<Rightarrow> pyval \<Rightarrow> pyval \<Rightarrow> pyval \<Rightarrow> pyval \<Rightarrow> pyval \<Rightarrow> pyval \<Rightarrow> pyval
     \<Rightarrow> request list \<Rightarrow> (exc + 'j) \<times> request list" where
  "reports env s match_priority category_id start_date tags end_date page per_page report_id w =
     (case reports_request s match_priority category_id start_date tags end_date page per_page
             report_id of
        Inl e \<Rightarrow> (Inl e, w)
      | Inr req \<Rightarrow> fetch_json env s req w)"

subsection \<open>processed\_reports\<close>

definition processed_reports_validate ::
  "session \<Rightarrow> pyval \<Rightarrow> pyval \<Rightarrow> pyval \<Rightarrow> pyval \<Rightarrow> pyval \<Rightarrow> pyval \<Rightarrow> pyval \<Rightarrow> exc option" where
  "processed_reports_validate s match_priority category_id start_date tags end_date page per_page =
     (if \<not> isinstance (email s) TStr
      then Some (type_error '': email parameter must be a string'')
      else if \<not> isinstance (apikey s) TStr
      then Some (type_error '': apikey parameter must be a string'')
      else if truthy tags \<and> \<not> isinstance tags TList
      then Some (type_error '': tags parameter must be a list of strings'')
      else if truthy page \<and> \<not> isinstance page TInt
      then Some (type_error '': page parameter must be an integer'')
      else if truthy per_page \<and> \<not> isinstance per_page TInt
      then Some (type_error '': per_page parameter must be an integer'')
      else if truthy start_date \<and> \<not> isinstance start_date TStr
      then Some (type_error '': start_date parameter must be a string'')
      else if truthy end_date \<and> \<not> isinstance end_date TStr
      then Some (type_error '': end_date parameter must be a string'')
      else if truthy category_id \<and> \<not> isinstance category_id TInt
      then Some (type_error '': caterory_id parameter must be an integer'')
      else if truthy match_priority \<and> \<not> isinstance match_priority TInt
      then Some (type_error '': match_priority parameter must be an integer'')
      else None)"

definition processed_reports_params ::
  "pyval \<Rightarrow> pyval \<Rightarrow> pyval \<Rightarrow> pyval \<Rightarrow> pyval \<Rightarrow> pyval \<Rightarrow> pyval \<Rightarrow> exc + string list" where
  "processed_reports_params match_priority category_id start_date tags end_date page per_page =
     build_params
       [(tags, cat_join ''tags=''),
        (page, cat_str ''page=''),
        (per_page, cat_str ''per_page=''),
        (start_date, cat ''start_date=''),
        (end_date, cat ''end_date=''),
        (category_id, cat_str ''category_id=''),
        (match_priority, cat_str ''match_priority='')]"

text \<open>
  The URL of a listing method: \<^verbatim>\<open>endpoint?a&b\<close> when \<^verbatim>\<open>params\<close> is not empty,
  the bare endpoint otherwise (lines 237 to 243, 293 to 299 and 439 to 445).
\<close>

definition list_url :: "session \<Rightarrow> string \<Rightarrow> string list \<Rightarrow> string" where
  "list_url s endpoint params =
     (if params \<noteq> [] then api_url s (endpoint @ ''?'' @ join_strs ''&'' params)
      else api_url s endpoint)"

definition processed_reports_request ::
  "session \<Rightarrow> pyval \<Rightarrow> pyval \<Rightarrow> pyval \<Rightarrow> pyval \<Rightarrow> pyval \<Rightarrow> pyval \<Rightarrow> pyval \<Rightarrow> exc + request" where
  "processed_reports_request s match_priority category_id start_date tags end_date page per_page =
     (case processed_reports_validate s match_priority category_id start_date tags end_date page
             per_page of
        Some e \<Rightarrow> Inl e
      | None \<Rightarrow>
          (case processed_reports_params match_priority category_id start_date tags end_date page
                  per_page of
             Inl e \<Rightarrow> Inl e
           | Inr params \<Rightarrow>
               Inr \<lparr>req_method = ''GET'',
                    req_url = list_url s ''processed_reports'' params,
                    req_headers = with_content_type s ''application/json''\<rparr>))"

definition processed_reports ::
  "'j env \<Rightarrow> session \<Rightarrow> pyval \<Rightarrow> pyval \<Rightarrow> pyval \<Rightarrow> pyval \<Rightarrow> pyval \<Rightarrow> pyval \<Rightarrow> pyval
     \<Rightarrow> request list \<Rightarrow> (exc + 'j) \<times> request list" where
  "processed_reports env s match_priority category_id start_date tags end_date page per_page w =
     (case processed_reports_request s match_priority category_id start_date tags end_date page
             per_page of
        Inl e \<Rightarrow> (Inl e, w)
      | Inr req \<Rightarrow> fetch_json env s req w)"

subsection \<open>inbox\_reports\<close>

definition inbox_reports_validate ::
  "session \<Rightarrow> pyval \<Rightarrow> pyval \<Rightarrow> pyval \<Rightarrow> pyval \<Rightarrow> pyval \<Rightarrow> exc option" where
  "inbox_reports_validate s match_priority start_date end_date page per_page =
     (if \<not> isinstance (email s) TStr
      then Some (type_error '': email parameter must be a string'')
      else if \<not> isinstance (apikey s) TStr
      then Some (type_error '': apikey parameter must be a string'')
      else if truthy page \<and> \<not> isinstance page TInt
      then Some (type_error '': page parameter must be an integer'')
      else if truthy per_page \<and> \<not> isinstance per_page TInt
      then Some (type_error '': per_page parameter must be an integer'')
      else if truthy start_date \<and> \<not> isinstance start_date TStr
      then Some (type_error '': start_date parameter must be a string'')
      else if truthy end_date \<and> \<not> isinstance end_date TStr
      then Some (type_error '': end_date parameter must be a string'')
      else if truthy match_priority \<and> \<not> isinstance match_priority TInt
      then Some (type_error '': match_priority parameter must be an integer'')
      else None)"

definition inbox_reports_params ::
  "pyval \<Rightarrow> pyval \<Rightarrow> pyval \<Rightarrow> pyval \<Rightarrow> pyval \<Rightarrow> exc + string list" where
  "inbox_reports_params match_priority start_date end_date page per_page =
     build_params
       [(page, cat_str ''page=''),
        (per_page, cat_str ''per_page=''),
        (start_date, cat ''start_date=''),
        (end_date, cat ''end_date=''),
        (match_priority, cat_str ''match_priority='')]"

definition inbox_reports_request ::
  "session \<Rightarrow> pyval \<Rightarrow> pyval \<Rightarrow> pyval \<Rightarrow> pyval \<Rightarrow> pyval \<Rightarrow> exc + request" where
  "inbox_reports_request s match_priority start_date end_date page per_page =
     (case inbox_reports_validate s match_priority start_date end_date page per_page of
        Some e \<Rightarrow> Inl e
      | None \<Rightarrow>
          (case inbox_reports_params match_priority start_date end_date page per_page of
             Inl e \<Rightarrow> Inl e
           | Inr params \<Rightarrow>
               Inr \<lparr>req_method = ''GET'',
                    req_url = list_url s ''inbox_reports'' params,
                    req_headers = with_content_type s ''application/json''\<rparr>))"

definition inbox_reports ::
  "'j env \<Rightarrow> session \<Rightarrow> pyval \<Rightarrow> pyval \<Rightarrow> pyval \<Rightarrow> pyval \<Rightarrow> pyval
     \<Rightarrow> request list \<Rightarrow> (exc + 'j) \<times> request list" where
  "inbox_reports env s match_priority start_date end_date page per_page w =
     (case inbox_reports_request s match_priority start_date end_date page per_page of
        Inl e \<Rightarrow> (Inl e, w)
      | Inr req \<Rightarrow> fetch_json env s req w)"

subsection \<open>attachment\<close>

text \<open>Lines 323 to 341. Both parameters are required, and checked whatever their truth value.\<close>

definition attachment_request :: "session \<Rightarrow> pyval \<Rightarrow> pyval \<Rightarrow> exc + request" where
  "attachment_request s attachment_id mime_type =
     (if \<not> isinstance (email s) TStr
      then Inl (type_error '': email parameter must be a string'')
      else if \<not> isinstance (apikey s) TStr
      then Inl (type_error '': apikey parameter must be a string'')
      else if \<not> isinstance mime_type TStr
      then Inl (type_error '': mime_type parameter must be a string'')
      else if \<not> isinstance attachment_id TInt
      then Inl (type_error '': attachment_id parameter must be an integer'')
      else Inr \<lparr>req_method = ''GET'',
                req_url = api_url s (''attachment/'' @ py_str attachment_id),
                req_headers = with_content_type s (py_str mime_type)\<rparr>)"

text \<open>Lines 343 to 345: the body comes back as \<^verbatim>\<open>resp.content\<close>.\<close>

definition attachment ::
  "'j env \<Rightarrow> session \<Rightarrow> pyval \<Rightarrow> pyval \<Rightarrow> request list \<Rightarrow> (exc + string) \<times> request list" where
  "attachment env s attachment_id mime_type w =
     (case attachment_request s attachment_id mime_type of
        Inl e \<Rightarrow> (Inl e, w)
      | Inr req \<Rightarrow>
          (case reqsend env s req (triagehost s) w of
             (Inl e, w') \<Rightarrow> (Inl e, w')
           | (Inr resp, w') \<Rightarrow> (Inr (content resp), w')))"

subsection \<open>integration\_search\<close>

text \<open>The query parameters of lines 356 to 363; they are built before anything is checked.\<close>

definition integration_search_params :: "pyval \<Rightarrow> pyval \<Rightarrow> pyval \<Rightarrow> exc + string list" where
  "integration_search_params sha256 md5 searchurl =
     build_params
       [(searchurl, cat ''searchurl=''),
        (md5, cat ''md5=''),
        (sha256, cat ''sha256='')]"

text \<open>
  The checks of lines 368 to 380: the credentials, the parameters (the third parameter
  check tests \<^verbatim>\<open>md5\<close> again), then the number of \<^verbatim>\<open>None\<close> among the arguments.
\<close>

definition integration_search_validate :: "session \<Rightarrow> pyval \<Rightarrow> pyval \<Rightarrow> pyval \<Rightarrow> exc option" where
  "integration_search_validate s sha256 md5 searchurl =
     (if \<not> isinstance (email s) TStr
      then Some (type_error '': email parameter must be a string'')
      else if \<not> isinstance (apikey s) TStr
      then Some (type_error '': apikey parameter must be a string'')
      else if truthy md5 \<and> \<not> isinstance md5 TStr
      then Some (type_error '': md5 parameter must be a string'')
      else if truthy searchurl \<and> \<not> isinstance searchurl TStr
      then Some (type_error '': searchurl parameter must be a string'')
      else if truthy md5 \<and> \<not> isinstance md5 TStr
      then Some (type_error '': sha256 parameter must be a string'')
      else if count_list [sha256, md5, searchurl] PNone = 3
      then Some (Exc ValueError (name_of_module
             @ ''Triage.integration_search takes exactly 1 argument. You gave none.''))
      else None)"

text \<open>Lines 356 to 392: the \<^verbatim>\<open>?\<close> is part of the format string.\<close>

definition integration_search_request :: "session \<Rightarrow> pyval \<Rightarrow> pyval \<Rightarrow> pyval \<Rightarrow> exc + request" where
  "integration_search_request s sha256 md5 searchurl =
     (case integration_search_params sha256 md5 searchurl of
        Inl e \<Rightarrow> Inl e
      | Inr params \<Rightarrow>
          (case integration_search_validate s sha256 md5 searchurl of
             Some e \<Rightarrow> Inl e
           | None \<Rightarrow>
               Inr \<lparr>req_method = ''GET'',
                    req_url = api_url s (''integration_search?'' @ join_strs ''&'' params),
                    req_headers = with_content_type s ''application/json''\<rparr>))"

definition integration_search ::
  "'j env \<Rightarrow> session \<Rightarrow> pyval \<Rightarrow> pyval \<Rightarrow> pyval
     \<Rightarrow> request list \<Rightarrow> (exc + 'j) \<times> request list" where
  "integration_search env s sha256 md5 searchurl w =
     (case integration_search_request s sha256 md5 searchurl of
        Inl e \<Rightarrow> (Inl e, w)
      | Inr req \<Rightarrow> fetch_json env s req w)"

subsection \<open>clusters\<close>

definition clusters_validate ::
  "session \<Rightarrow> pyval \<Rightarrow> pyval \<Rightarrow> pyval \<Rightarrow> pyval \<Rightarrow> pyval \<Rightarrow> pyval \<Rightarrow> exc option" where
  "clusters_validate s match_priority start_date end_date page per_page tags =
     (if \<not> isinstance (email s) TStr
      then Some (type_error '': email parameter must be a string'')
      else if \<not> isinstance (apikey s) TStr
      then Some (type_error '': apikey parameter must be a string'')
      else if truthy tags \<and> \<not> isinstance tags TStr
      then Some (type_error '': tags parameter must be a string'')
      else if truthy page \<and> \<not> isinstance page TInt
      then Some (type_error '': page parameter must be an integer'')
      else if truthy per_page \<and> \<not> isinstance per_page TInt
      then Some (type_error '': per_page parameter must be an integer'')
      else if truthy start_date \<and> \<not> isinstance start_date TStr
      then Some (type_error '': start_date parameter must be a string'')
      else if truthy end_date \<and> \<not> isinstance end_date TStr
      then Some (type_error '': end_date parameter must be a string'')
      else if truthy match_priority \<and> \<not> isinstance match_priority TInt
      then Some (type_error '': match_priority parameter must be an integer'')
      else None)"

definition clusters_params ::
  "pyval \<Rightarrow> pyval \<Rightarrow> pyval \<Rightarrow> pyval \<Rightarrow> pyval \<Rightarrow> pyval \<Rightarrow> exc + string list" where
  "clusters_params match_priority start_date end_date page per_page tags =
     build_params
       [(tags, cat ''tags=''),
        (page, cat_str ''page=''),
        (per_page, cat_str ''per_page=''),
        (start_date, cat ''start_date=''),
        (end_date, cat ''end_date=''),
        (match_priority, cat_str ''match_priority='')]"

definition clusters_request ::
  "session \<Rightarrow> pyval \<Rightarrow> pyval \<Rightarrow> pyval \<Rightarrow> pyval \<Rightarrow> pyval \<Rightarrow> pyval \<Rightarrow> exc + request" where
  "clusters_request s match_priority start_date end_date page per_page tags =
     (case clusters_validate s match_priority start_date end_date page per_page tags of
        Some e \<Rightarrow> Inl e
      | None \<Rightarrow>
          (case clusters_params match_priority start_date end_date page per_page tags of
             Inl e \<Rightarrow> Inl e
           | Inr params \<Rightarrow>
               Inr \<lparr>req_method = ''GET'',
                    req_url = list_url s ''clusters'' params,
                    req_headers = with_content_type s ''application/json''\<rparr>))"

definition clusters ::
  "'j env \<Rightarrow> session \<Rightarrow> pyval \<Rightarrow> pyval \<Rightarrow> pyval \<Rightarrow> pyval \<Rightarrow> pyval \<Rightarrow> pyval
     \<Rightarrow> request list \<Rightarrow> (exc + 'j) \<times> request list" where
  "clusters env s match_priority start_date end_date page per_page tags w =
     (case clusters_request s match_priority start_date end_date page per_page tags of
        Inl e \<Rightarrow> (Inl e, w)
      | Inr req \<Rightarrow> fetch_json env s req w)"

section \<open>The query string as the specification words it\<close>

text \<open>The text of a query value: a list is comma-separated, anything else is its \<^verbatim>\<open>str\<close>.\<close>

definition value_text :: "pyval \<Rightarrow> string" where
  "value_text v = (case v of PList xs \<Rightarrow> join_strs '','' (map py_str xs) | _ \<Rightarrow> py_str v)"

text \<open>One \<^verbatim>\<open>key=value\<close> for every supplied (truthy) parameter, in the order of the table.\<close>

definition query_segments :: "(string \<times> pyval) list \<Rightarrow> string list" where
  "query_segments kvs =
     map (\<lambda>(k, v). k @ ''='' @ value_text v) (filter (\<lambda>(k, v). truthy v) kvs)"

text \<open>The segments joined with \<^verbatim>\<open>&\<close> behind a \<^verbatim>\<open>?\<close>; nothing is added when there is none.\<close>

definition with_query :: "string \<Rightarrow> string list \<Rightarrow> string" where
  "with_query u segs = (if segs = [] then u else u @ ''?'' @ join_strs ''&'' segs)"

text \<open>
  The query of \<^verbatim>\<open>reports\<close> in the order its parameters are declared (line 121):
  \<^verbatim>\<open>match_priority, category_id, start_date, tags, end_date, page, per_page\<close>.
\<close>

definition reports_declared_query ::
  "pyval \<Rightarrow> pyval \<Rightarrow> pyval \<Rightarrow> pyval \<Rightarrow> pyval \<Rightarrow> pyval \<Rightarrow> pyval \<Rightarrow> string list" where
  "reports_declared_query match_priority category_id start_date tags end_date page per_page =
     query_segments
       [(''match_priority'', match_priority),
        (''category_id'', category_id),
        (''start_date'', start_date),
        (''tags'', tags),
        (''end_date'', end_date),
        (''page'', page),
        (''per_page'', per_page)]"

text \<open>The query string of a URL: what follows the first \<^verbatim>\<open>?\<close>, if there is one.\<close>

definition url_query :: "string \<Rightarrow> string option" where
  "url_query u =
     (if CHR ''?'' \<in> set u then Some (tl (dropWhile (\<lambda>c. c \<noteq> CHR ''?'') u)) else None)"





text \<open>
  A row of a method's parameter table: the key, the argument and the expression the
  source appends. The row renders when that expression, on a supplied argument, is
  \<^verbatim>\<open>key=value\<close>.
\<close>

type_synonym row = "string \<times> pyval \<times> (pyval \<Rightarrow> exc + string)"

definition row_stmt :: "row \<Rightarrow> pyval \<times> (pyval \<Rightarrow> exc + string)" where
  "row_stmt r = (fst (snd r), snd (snd r))"

definition row_arg :: "row \<Rightarrow> string \<times> pyval" where
  "row_arg r = (fst r, fst (snd r))"

definition renders :: "row \<Rightarrow> bool" where
  "renders r = (case r of (k, v, f) \<Rightarrow>
      truthy v \<longrightarrow> (\<forall>seg. f v = Inr seg \<longrightarrow> seg = k @ ''='' @ value_text v))"

subsection \<open>A concrete session and a concrete server\<close>

definition demo_session :: session where
  "demo_session =
     \<lparr>triagehost = PStr ''triage.example.org'',
      usessl = True,
      userag = ''Python CoFense Triage Client'',
      email = PStr ''analyst@example.org'',
      apikey = PStr ''0123abcd'',
      headers = [(''Accept'', ''application/vnd.ve.v1.0+json''),
                 (''VE-API-Version'', ''1.0.0''),
                 (''user-agent'', ''Python CoFense Triage Client''),
                 (''Authorization'', ''Token token=analyst@example.org:0123abcd'')]\<rparr>"

definition demo_response :: "int \<Rightarrow> string \<Rightarrow> response" where
  "demo_response code body = \<lparr>status_code = code, resp_text = body, content = body\<rparr>"

text \<open>
  A server that answers every request with the same status and body, and a parser that
  accepts the one text \<^verbatim>\<open>[]\<close>.
\<close>

definition demo_env :: "int \<Rightarrow> string \<Rightarrow> nat env" where
  "demo_env code body =
     \<lparr>send = (\<lambda>r. Inr (demo_response code body)),
      loads = (\<lambda>t. if t = ''[]'' then Some 0 else None)\<rparr>"

definition demo_request :: request where
  "demo_request =
     \<lparr>req_method = ''GET'',
      req_url = ''https://triage.example.org/api/public/v1/reports'',
      req_headers = with_content_type demo_session ''application/json''\<rparr>"

section \<open>Response classification\<close>

lemma issubclass_Triage:
  "issubclass TriageAuthError TriageError" "issubclass TriageClientError TriageError"
  "issubclass TriageServerError TriageError" "issubclass TriageError TriageError"
  by (simp_all add: issubclass_def eval_nat_numeral)

text \<open>
  C1. A completed response is classified by its status code alone: 200 is handed back
  for body handling, 401 raises \<^verbatim>\<open>TriageAuthError\<close>, any other 4xx raises
  \<^verbatim>\<open>TriageClientError\<close>, 5xx raises \<^verbatim>\<open>TriageServerError\<close>, anything else raises
  \<^verbatim>\<open>TriageError\<close> itself; whatever is raised is a subclass of \<^verbatim>\<open>TriageError\<close>.
\<close>

theorem reqsend_classifies:
  assumes "send env prep = Inr resp"
  shows "(status_code resp = 200 \<longrightarrow> fst (reqsend env s prep host w) = Inr resp)
    \<and> (status_code resp = 401 \<longrightarrow>
         fst (reqsend env s prep host w) = Inl (Exc TriageAuthError (auth_error_msg host)))
    \<and> (400 \<le> status_code resp \<and> status_code resp < 500 \<and> status_code resp \<noteq> 401 \<longrightarrow>
         fst (reqsend env s prep host w)
           = Inl (Exc TriageClientError (http_error_desc s (status_code resp))))
    \<and> (500 \<le> status_code resp \<and> status_code resp < 600 \<longrightarrow>
         fst (reqsend env s prep host w)
           = Inl (Exc TriageServerError (http_error_desc s (status_code resp))))
    \<and> (status_code resp \<noteq> 200 \<and> \<not> (400 \<le> status_code resp \<and> status_code resp < 600) \<longrightarrow>
         fst (reqsend env s prep host w)
           = Inl (Exc TriageError (http_error_desc s (status_code resp))))
    \<and> (\<forall>e. fst (reqsend env s prep host w) = Inl e \<longrightarrow> issubclass (exc_cls e) TriageError)"
  using assms by (auto simp: reqsend_def classify_def issubclass_Triage)

theorem reqsend_classifies_witness:
  "fst (reqsend (demo_env 200 ''[]'') demo_session demo_request (PStr ''h'') [])
     = Inr (demo_response 200 ''[]'')
   \<and> fst (reqsend (demo_env 401 []) demo_session demo_request (PStr ''h'') [])
     = Inl (Exc TriageAuthError (auth_error_msg (PStr ''h'')))
   \<and> fst (reqsend (demo_env 404 []) demo_session demo_request (PStr ''h'') [])
     = Inl (Exc TriageClientError (http_error_desc demo_session 404))
   \<and> fst (reqsend (demo_env 503 []) demo_session demo_request (PStr ''h'') [])
     = Inl (Exc TriageServerError (http_error_desc demo_session 503))
   \<and> fst (reqsend (demo_env 302 []) demo_session demo_request (PStr ''h'') [])
     = Inl (Exc TriageError (http_error_desc demo_session 302))
   \<and> issubclass TriageClientError TriageError"
  using reqsend_classifies [of "demo_env 200 ''[]''" demo_request "demo_response 200 ''[]''"
      demo_session "PStr ''h''" "[]"]
    reqsend_classifies [of "demo_env 401 []" demo_request "demo_response 401 []"
      demo_session "PStr ''h''" "[]"]
    reqsend_classifies [of "demo_env 404 []" demo_request "demo_response 404 []"
      demo_session "PStr ''h''" "[]"]
    reqsend_classifies [of "demo_env 503 []" demo_request "demo_response 503 []"
      demo_session "PStr ''h''" "[]"]
    reqsend_classifies [of "demo_env 302 []" demo_request "demo_response 302 []"
      demo_session "PStr ''h''" "[]"]
  by (auto simp: demo_env_def demo_response_def)

section \<open>What the parameter statements append\<close>

lemma join_items_strs: "join_items i xs = Inr ts \<Longrightarrow> ts = map py_str xs"
  by (induction xs arbitrary: i ts) (auto split: pyval.splits sum.splits)

lemma cat_segment: "cat (k @ ''='') v = Inr seg \<Longrightarrow> seg = k @ ''='' @ value_text v"
  by (auto simp: cat_def value_text_def split: pyval.splits)

lemma cat_str_segment:
  "cat_str (k @ ''='') v = Inr seg \<Longrightarrow> isinstance v TInt \<Longrightarrow> seg = k @ ''='' @ value_text v"
  by (cases v) (auto simp: cat_str_def value_text_def isinstance_def)

lemma cat_join_segment:
  "cat_join (k @ ''='') v = Inr seg \<Longrightarrow> isinstance v TList \<Longrightarrow> seg = k @ ''='' @ value_text v"
  by (cases v) (auto simp: cat_join_def py_join_def value_text_def isinstance_def
      dest: join_items_strs split: sum.splits)

lemma build_params_segments:
  "list_all renders tab \<Longrightarrow> build_params (map row_stmt tab) = Inr ps
     \<Longrightarrow> ps = query_segments (map row_arg tab)"
proof (induction tab arbitrary: ps)
  case Nil
  then show ?case by (simp add: query_segments_def)
next
  case (Cons r tab)
  obtain k v f where r: "r = (k, v, f)" by (cases r)
  from Cons.prems have all: "list_all renders tab" and rr: "renders (k, v, f)"
    by (simp_all add: r)
  have "row_stmt r = (v, f)" by (simp add: r row_stmt_def)
  with Cons.prems(2) have bp: "build_params ((v, f) # map row_stmt tab) = Inr ps"
    by simp
  show ?case
  proof (cases "truthy v")
    case True
    with bp obtain seg ps' where
      seg: "f v = Inr seg" and ps': "build_params (map row_stmt tab) = Inr ps'" and ps: "ps = seg # ps'"
      by (auto split: sum.splits)
    from rr True seg have "seg = k @ ''='' @ value_text v"
      by (simp add: renders_def)
    with Cons.IH [OF all ps'] ps True show ?thesis
      by (simp add: query_segments_def r row_arg_def)
  next
    case False
    with bp have "build_params (map row_stmt tab) = Inr ps" by simp
    from Cons.IH [OF all this] False show ?thesis
      by (simp add: query_segments_def r row_arg_def)
  qed
qed

lemma renders_cat: "renders (k, v, cat (k @ ''=''))"
  by (auto simp: renders_def dest: cat_segment)

lemma renders_cat_str: "(truthy v \<Longrightarrow> isinstance v TInt) \<Longrightarrow> renders (k, v, cat_str (k @ ''=''))"
  by (auto simp: renders_def dest: cat_str_segment)

lemma renders_cat_join: "(truthy v \<Longrightarrow> isinstance v TList) \<Longrightarrow> renders (k, v, cat_join (k @ ''=''))"
  by (auto simp: renders_def dest: cat_join_segment)

lemma reports_params_segments:
  assumes "reports_validate s mp ci sd tg ed pg pp rid = None"
    and "reports_params mp ci sd tg ed pg pp = Inr ps"
  shows "ps = query_segments [(''tags'', tg), (''page'', pg), (''per_page'', pp),
      (''start_date'', sd), (''end_date'', ed), (''match_priority'', mp), (''category_id'', ci)]"
proof -
  from assms(1) have t: "truthy tg \<Longrightarrow> isinstance tg TList" "truthy pg \<Longrightarrow> isinstance pg TInt"
    "truthy pp \<Longrightarrow> isinstance pp TInt" "truthy mp \<Longrightarrow> isinstance mp TInt"
    "truthy ci \<Longrightarrow> isinstance ci TInt"
    by (simp_all add: reports_validate_def split: if_splits)
  have "list_all renders [(''tags'', tg, cat_join (''tags'' @ ''='')), (''page'', pg, cat_str (''page'' @ ''='')),
     (''per_page'', pp, cat_str (''per_page'' @ ''='')), (''start_date'', sd, cat (''start_date'' @ ''='')),
     (''end_date'', ed, cat (''end_date'' @ ''='')), (''match_priority'', mp, cat_str (''match_priority'' @ ''='')),
     (''category_id'', ci, cat_str (''category_id'' @ ''=''))]"
    using t by (simp only: list.pred_inject renders_cat renders_cat_str renders_cat_join simp_thms)
  from build_params_segments [OF this] assms(2) show ?thesis
    by (simp add: reports_params_def row_stmt_def row_arg_def)
qed


lemma processed_reports_params_segments:
  assumes "processed_reports_validate s mp ci sd tg ed pg pp = None"
    and "processed_reports_params mp ci sd tg ed pg pp = Inr ps"
  shows "ps = query_segments [(''tags'', tg), (''page'', pg), (''per_page'', pp),
      (''start_date'', sd), (''end_date'', ed), (''category_id'', ci), (''match_priority'', mp)]"
proof -
  from assms(1) have t: "truthy tg \<Longrightarrow> isinstance tg TList" "truthy pg \<Longrightarrow> isinstance pg TInt"
    "truthy pp \<Longrightarrow> isinstance pp TInt" "truthy mp \<Longrightarrow> isinstance mp TInt"
    "truthy ci \<Longrightarrow> isinstance ci TInt"
    by (simp_all add: processed_reports_validate_def split: if_splits)
  have "list_all renders [(''tags'', tg, cat_join (''tags'' @ ''='')),
     (''page'', pg, cat_str (''page'' @ ''='')),
     (''per_page'', pp, cat_str (''per_page'' @ ''='')),
     (''start_date'', sd, cat (''start_date'' @ ''='')),
     (''end_date'', ed, cat (''end_date'' @ ''='')),
     (''category_id'', ci, cat_str (''category_id'' @ ''='')),
     (''match_priority'', mp, cat_str (''match_priority'' @ ''=''))]"
    using t by (simp only: list.pred_inject renders_cat renders_cat_str renders_cat_join simp_thms)
  from build_params_segments [OF this] assms(2) show ?thesis
    by (simp add: processed_reports_params_def row_stmt_def row_arg_def)
qed

lemma inbox_reports_params_segments:
  assumes "inbox_reports_validate s mp sd ed pg pp = None"
    and "inbox_reports_params mp sd ed pg pp = Inr ps"
  shows "ps = query_segments [(''page'', pg), (''per_page'', pp),
      (''start_date'', sd), (''end_date'', ed), (''match_priority'', mp)]"
proof -
  from assms(1) have t: "truthy pg \<Longrightarrow> isinstance pg TInt"
    "truthy pp \<Longrightarrow> isinstance pp TInt" "truthy mp \<Longrightarrow> isinstance mp TInt"
    by (simp_all add: inbox_reports_validate_def split: if_splits)
  have "list_all renders [(''page'', pg, cat_str (''page'' @ ''='')),
     (''per_page'', pp, cat_str (''per_page'' @ ''='')),
     (''start_date'', sd, cat (''start_date'' @ ''='')),
     (''end_date'', ed, cat (''end_date'' @ ''='')),
     (''match_priority'', mp, cat_str (''match_priority'' @ ''=''))]"
    using t by (simp only: list.pred_inject renders_cat renders_cat_str simp_thms)
  from build_params_segments [OF this] assms(2) show ?thesis
    by (simp add: inbox_reports_params_def row_stmt_def row_arg_def)
qed

lemma clusters_params_segments:
  assumes "clusters_validate s mp sd ed pg pp tg = None"
    and "clusters_params mp sd ed pg pp tg = Inr ps"
  shows "ps = query_segments [(''tags'', tg), (''page'', pg), (''per_page'', pp),
      (''start_date'', sd), (''end_date'', ed), (''match_priority'', mp)]"
proof -
  from assms(1) have t: "truthy pg \<Longrightarrow> isinstance pg TInt"
    "truthy pp \<Longrightarrow> isinstance pp TInt" "truthy mp \<Longrightarrow> isinstance mp TInt"
    by (simp_all add: clusters_validate_def split: if_splits)
  have "list_all renders [(''tags'', tg, cat (''tags'' @ ''='')),
     (''page'', pg, cat_str (''page'' @ ''='')),
     (''per_page'', pp, cat_str (''per_page'' @ ''='')),
     (''start_date'', sd, cat (''start_date'' @ ''='')),
     (''end_date'', ed, cat (''end_date'' @ ''='')),
     (''match_priority'', mp, cat_str (''match_priority'' @ ''=''))]"
    using t by (simp only: list.pred_inject renders_cat renders_cat_str simp_thms)
  from build_params_segments [OF this] assms(2) show ?thesis
    by (simp add: clusters_params_def row_stmt_def row_arg_def)
qed

lemma integration_search_params_segments:
  assumes "integration_search_params sha md5 su = Inr ps"
  shows "ps = query_segments [(''searchurl'', su), (''md5'', md5), (''sha256'', sha)]"
proof -
  have "list_all renders [(''searchurl'', su, cat (''searchurl'' @ ''='')),
     (''md5'', md5, cat (''md5'' @ ''='')), (''sha256'', sha, cat (''sha256'' @ ''=''))]"
    by (simp only: list.pred_inject renders_cat simp_thms)
  from build_params_segments [OF this] assms show ?thesis
    by (simp add: integration_search_params_def row_stmt_def row_arg_def)
qed

lemma api_url_append: "api_url s (p @ q) = api_url s p @ q"
  by (simp add: api_url_def)

lemma list_url_with_query: "list_url s ep ps = with_query (api_url s ep) ps"
  by (simp add: list_url_def with_query_def api_url_def)

lemma reports_url_list:
  "\<not> truthy rid \<Longrightarrow> reports_url s ps rid = with_query (api_url s ''reports'') ps"
  by (simp add: reports_url_def with_query_def api_url_def)

section \<open>Order of the query parameters\<close>

text \<open>
  C4 (as amended). In every method that builds a query string, the supplied parameters
  are rendered as \<^verbatim>\<open>key=value\<close> and joined with \<^verbatim>\<open>&\<close>, in the order in which
  the method's body appends them, which is fixed for each method and is not the order of
  its parameter list: \<^verbatim>\<open>tags, page, per_page, start_date, end_date\<close> come first, then
  \<^verbatim>\<open>match_priority, category_id\<close> in \<^verbatim>\<open>reports\<close> and
  \<^verbatim>\<open>category_id, match_priority\<close> in \<^verbatim>\<open>processed_reports\<close>;
  \<^verbatim>\<open>integration_search\<close> appends \<^verbatim>\<open>searchurl, md5, sha256\<close>.
\<close>

theorem query_in_code_order:
  "(reports_request s mp ci sd tg ed pg pp rid = Inr req \<longrightarrow> \<not> truthy rid \<longrightarrow>
      req_url req = with_query (api_url s ''reports'')
        (query_segments [(''tags'', tg), (''page'', pg), (''per_page'', pp),
           (''start_date'', sd), (''end_date'', ed), (''match_priority'', mp),
           (''category_id'', ci)]))
   \<and> (processed_reports_request s mp ci sd tg ed pg pp = Inr req \<longrightarrow>
      req_url req = with_query (api_url s ''processed_reports'')
        (query_segments [(''tags'', tg), (''page'', pg), (''per_page'', pp),
           (''start_date'', sd), (''end_date'', ed), (''category_id'', ci),
           (''match_priority'', mp)]))
   \<and> (inbox_reports_request s mp sd ed pg pp = Inr req \<longrightarrow>
      req_url req = with_query (api_url s ''inbox_reports'')
        (query_segments [(''page'', pg), (''per_page'', pp), (''start_date'', sd),
           (''end_date'', ed), (''match_priority'', mp)]))
   \<and> (clusters_request s mp sd ed pg pp tg = Inr req \<longrightarrow>
      req_url req = with_query (api_url s ''clusters'')
        (query_segments [(''tags'', tg), (''page'', pg), (''per_page'', pp),
           (''start_date'', sd), (''end_date'', ed), (''match_priority'', mp)]))
   \<and> (integration_search_request s sha md5 su = Inr req \<longrightarrow>
      req_url req = api_url s ''integration_search'' @ ''?'' @ join_strs ''&''
        (query_segments [(''searchurl'', su), (''md5'', md5), (''sha256'', sha)]))"
proof (intro conjI impI)
  assume "reports_request s mp ci sd tg ed pg pp rid = Inr req" and rid: "\<not> truthy rid"
  then obtain ps where v: "reports_validate s mp ci sd tg ed pg pp rid = None"
    and p: "reports_params mp ci sd tg ed pg pp = Inr ps"
    and u: "req_url req = reports_url s ps rid"
    by (auto simp: reports_request_def split: option.splits sum.splits)
  from u show "req_url req = with_query (api_url s ''reports'')
        (query_segments [(''tags'', tg), (''page'', pg), (''per_page'', pp),
           (''start_date'', sd), (''end_date'', ed), (''match_priority'', mp),
           (''category_id'', ci)])"
    by (simp only: reports_params_segments [OF v p, symmetric] reports_url_list [OF rid])
next
  assume "processed_reports_request s mp ci sd tg ed pg pp = Inr req"
  then obtain ps where v: "processed_reports_validate s mp ci sd tg ed pg pp = None"
    and p: "processed_reports_params mp ci sd tg ed pg pp = Inr ps"
    and u: "req_url req = list_url s ''processed_reports'' ps"
    by (auto simp: processed_reports_request_def split: option.splits sum.splits)
  from u show "req_url req = with_query (api_url s ''processed_reports'')
        (query_segments [(''tags'', tg), (''page'', pg), (''per_page'', pp),
           (''start_date'', sd), (''end_date'', ed), (''category_id'', ci),
           (''match_priority'', mp)])"
    by (simp only: processed_reports_params_segments [OF v p, symmetric] list_url_with_query)
next
  assume "inbox_reports_request s mp sd ed pg pp = Inr req"
  then obtain ps where v: "inbox_reports_validate s mp sd ed pg pp = None"
    and p: "inbox_reports_params mp sd ed pg pp = Inr ps"
    and u: "req_url req = list_url s ''inbox_reports'' ps"
    by (auto simp: inbox_reports_request_def split: option.splits sum.splits)
  from u show "req_url req = with_query (api_url s ''inbox_reports'')
        (query_segments [(''page'', pg), (''per_page'', pp), (''start_date'', sd),
           (''end_date'', ed), (''match_priority'', mp)])"
    by (simp only: inbox_reports_params_segments [OF v p, symmetric] list_url_with_query)
next
  assume "clusters_request s mp sd ed pg pp tg = Inr req"
  then obtain ps where v: "clusters_validate s mp sd ed pg pp tg = None"
    and p: "clusters_params mp sd ed pg pp tg = Inr ps"
    and u: "req_url req = list_url s ''clusters'' ps"
    by (auto simp: clusters_request_def split: option.splits sum.splits)
  from u show "req_url req = with_query (api_url s ''clusters'')
        (query_segments [(''tags'', tg), (''page'', pg), (''per_page'', pp),
           (''start_date'', sd), (''end_date'', ed), (''match_priority'', mp)])"
    by (simp only: clusters_params_segments [OF v p, symmetric] list_url_with_query)
next
  assume "integration_search_request s sha md5 su = Inr req"
  then obtain ps where p: "integration_search_params sha md5 su = Inr ps"
    and u: "req_url req = api_url s (''integration_search?'' @ join_strs ''&'' ps)"
    by (auto simp: integration_search_request_def split: sum.splits option.splits)
  from u show "req_url req = api_url s ''integration_search'' @ ''?'' @ join_strs ''&''
        (query_segments [(''searchurl'', su), (''md5'', md5), (''sha256'', sha)])"
    by (simp add: integration_search_params_segments [OF p, symmetric] api_url_def)
qed

theorem query_in_code_order_witness:
  "reports_request demo_session (PInt 1) PNone PNone (PList [PStr ''a'', PStr ''b'']) PNone
       (PInt 2) PNone PNone
     = Inr \<lparr>req_method = ''GET'',
            req_url = ''https://triage.example.org/api/public/v1/reports?tags=a,b&page=2&match_priority=1'',
            req_headers = with_content_type demo_session ''application/json''\<rparr>
   \<and> with_query (api_url demo_session ''reports'')
         (query_segments [(''tags'', PList [PStr ''a'', PStr ''b'']), (''page'', PInt 2),
            (''per_page'', PNone), (''start_date'', PNone), (''end_date'', PNone),
            (''match_priority'', PInt 1), (''category_id'', PNone)])
     = ''https://triage.example.org/api/public/v1/reports?tags=a,b&page=2&match_priority=1''"
proof -
  have h: "reports_request demo_session (PInt 1) PNone PNone (PList [PStr ''a'', PStr ''b'']) PNone
       (PInt 2) PNone PNone
     = Inr \<lparr>req_method = ''GET'',
            req_url = ''https://triage.example.org/api/public/v1/reports?tags=a,b&page=2&match_priority=1'',
            req_headers = with_content_type demo_session ''application/json''\<rparr>"
    by code_simp
  have f: "\<not> truthy PNone" by simp
  from query_in_code_order [of demo_session "PInt 1" PNone PNone "PList [PStr ''a'', PStr ''b'']"
      PNone "PInt 2" PNone PNone
      "\<lparr>req_method = ''GET'',
        req_url = ''https://triage.example.org/api/public/v1/reports?tags=a,b&page=2&match_priority=1'',
        req_headers = with_content_type demo_session ''application/json''\<rparr>"] h f
  show ?thesis by simp
qed

text \<open>
  C4 as stated fails: \<^verbatim>\<open>reports(match_priority=1, page=2)\<close> asks for
  \<^verbatim>\<open>page=2&match_priority=1\<close>, the reverse of the declaration order.
\<close>

theorem reports_declared_order_counterexample:
  "map_sum id req_url
       (reports_request demo_session (PInt 1) PNone PNone PNone PNone (PInt 2) PNone PNone)
     = Inr ''https://triage.example.org/api/public/v1/reports?page=2&match_priority=1''
   \<and> map_sum id req_url
       (reports_request demo_session (PInt 1) PNone PNone PNone PNone (PInt 2) PNone PNone)
     \<noteq> Inr (with_query (api_url demo_session ''reports'')
              (reports_declared_query (PInt 1) PNone PNone PNone PNone (PInt 2) PNone))"
  by code_simp

section \<open>Argument checks of integration\_search\<close>

text \<open>With no argument at all the method raises, and nothing is sent.\<close>

lemma integration_search_no_argument:
  "\<exists>c m. integration_search env s PNone PNone PNone w = (Inl (Exc c m), w)
     \<and> (c = TypeError \<or> c = ValueError)"
  by (simp add: integration_search_def integration_search_request_def
      integration_search_params_def integration_search_validate_def type_error_def)

text \<open>
  C2. The claim asks for an error whenever more than one of \<^verbatim>\<open>sha256, md5, searchurl\<close>
  is given. The method only tests whether all three are \<^verbatim>\<open>None\<close>: called with
  \<^verbatim>\<open>md5="x", sha256="y"\<close> it raises nothing and sends a request carrying both.
\<close>

theorem integration_search_accepts_two_arguments:
  "integration_search (demo_env 200 ''[]'') demo_session (PStr ''y'') (PStr ''x'') PNone []
     = (Inr 0,
        [\<lparr>req_method = ''GET'',
          req_url = ''https://triage.example.org/api/public/v1/integration_search?md5=x&sha256=y'',
          req_headers = with_content_type demo_session ''application/json''\<rparr>])"
  by code_simp

lemma cat_not_str: "\<not> isinstance v TStr \<Longrightarrow> \<exists>m. cat k v = Inl (Exc TypeError m)"
  by (cases v) (simp_all add: cat_def isinstance_def)

lemma cat_raises_TypeError: "cat k v = Inl e \<Longrightarrow> \<exists>m. e = Exc TypeError m"
  by (cases v) (auto simp: cat_def)

lemma integration_search_params_wrong_type:
  assumes "(truthy sha \<and> \<not> isinstance sha TStr) \<or> (truthy md5 \<and> \<not> isinstance md5 TStr)
      \<or> (truthy su \<and> \<not> isinstance su TStr)"
  shows "\<exists>m. integration_search_params sha md5 su = Inl (Exc TypeError m)"
proof -
  show ?thesis
  proof (cases "truthy su \<and> \<not> isinstance su TStr")
    case True
    then show ?thesis using cat_not_str [of su "''searchurl=''"]
      by (auto simp: integration_search_params_def)
  next
    case su: False
    show ?thesis
    proof (cases "truthy md5 \<and> \<not> isinstance md5 TStr")
      case True
      then show ?thesis
        using cat_not_str [of md5 "''md5=''"] cat_raises_TypeError [of "''searchurl=''" su]
        by (cases "cat ''searchurl='' su")
          (auto simp: integration_search_params_def)
    next
      case False
      with su assms have sha: "truthy sha" "\<not> isinstance sha TStr" by auto
      then show ?thesis
        using cat_not_str [of sha "''sha256=''"] cat_raises_TypeError [of "''searchurl=''" su]
          cat_raises_TypeError [of "''md5=''" md5]
        by (cases "cat ''searchurl='' su"; cases "cat ''md5='' md5")
          (auto simp: integration_search_params_def)
    qed
  qed
qed

text \<open>
  A truthy argument of the wrong type makes every method raise \<^verbatim>\<open>TypeError\<close>, and
  nothing is handed to the transport.
\<close>

lemma wrong_type_raises_before_io:
  "(truthy tg \<and> \<not> isinstance tg TList) \<or> (truthy pg \<and> \<not> isinstance pg TInt)
     \<or> (truthy pp \<and> \<not> isinstance pp TInt) \<or> (truthy sd \<and> \<not> isinstance sd TStr)
     \<or> (truthy ed \<and> \<not> isinstance ed TStr) \<or> (truthy rid \<and> \<not> isinstance rid TInt)
     \<or> (truthy ci \<and> \<not> isinstance ci TInt) \<or> (truthy mp \<and> \<not> isinstance mp TInt)
   \<Longrightarrow> \<exists>m. reports env s mp ci sd tg ed pg pp rid w = (Inl (Exc TypeError m), w)"
  "(truthy tg \<and> \<not> isinstance tg TList) \<or> (truthy pg \<and> \<not> isinstance pg TInt)
     \<or> (truthy pp \<and> \<not> isinstance pp TInt) \<or> (truthy sd \<and> \<not> isinstance sd TStr)
     \<or> (truthy ed \<and> \<not> isinstance ed TStr)
     \<or> (truthy ci \<and> \<not> isinstance ci TInt) \<or> (truthy mp \<and> \<not> isinstance mp TInt)
   \<Longrightarrow> \<exists>m. processed_reports env s mp ci sd tg ed pg pp w = (Inl (Exc TypeError m), w)"
  "(truthy pg \<and> \<not> isinstance pg TInt)
     \<or> (truthy pp \<and> \<not> isinstance pp TInt) \<or> (truthy sd \<and> \<not> isinstance sd TStr)
     \<or> (truthy ed \<and> \<not> isinstance ed TStr) \<or> (truthy mp \<and> \<not> isinstance mp TInt)
   \<Longrightarrow> \<exists>m. inbox_reports env s mp sd ed pg pp w = (Inl (Exc TypeError m), w)"
  "\<not> isinstance mt TStr \<or> \<not> isinstance aid TInt
   \<Longrightarrow> \<exists>m. attachment env s aid mt w = (Inl (Exc TypeError m), w)"
  "(truthy sha \<and> \<not> isinstance sha TStr) \<or> (truthy md5 \<and> \<not> isinstance md5 TStr)
      \<or> (truthy su \<and> \<not> isinstance su TStr)
   \<Longrightarrow> \<exists>m. integration_search env s sha md5 su w = (Inl (Exc TypeError m), w)"
  "(truthy tg \<and> \<not> isinstance tg TStr) \<or> (truthy pg \<and> \<not> isinstance pg TInt)
     \<or> (truthy pp \<and> \<not> isinstance pp TInt) \<or> (truthy sd \<and> \<not> isinstance sd TStr)
     \<or> (truthy ed \<and> \<not> isinstance ed TStr) \<or> (truthy mp \<and> \<not> isinstance mp TInt)
   \<Longrightarrow> \<exists>m. clusters env s mp sd ed pg pp tg w = (Inl (Exc TypeError m), w)"
proof -
  show "\<exists>m. reports env s mp ci sd tg ed pg pp rid w = (Inl (Exc TypeError m), w)"
    if "(truthy tg \<and> \<not> isinstance tg TList) \<or> (truthy pg \<and> \<not> isinstance pg TInt)
     \<or> (truthy pp \<and> \<not> isinstance pp TInt) \<or> (truthy sd \<and> \<not> isinstance sd TStr)
     \<or> (truthy ed \<and> \<not> isinstance ed TStr) \<or> (truthy rid \<and> \<not> isinstance rid TInt)
     \<or> (truthy ci \<and> \<not> isinstance ci TInt) \<or> (truthy mp \<and> \<not> isinstance mp TInt)"
  proof -
    from that have "\<exists>m. reports_validate s mp ci sd tg ed pg pp rid = Some (Exc TypeError m)"
      unfolding reports_validate_def type_error_def by (simp split: if_splits) blast
    then show ?thesis by (auto simp: reports_def reports_request_def)
  qed
  show "\<exists>m. processed_reports env s mp ci sd tg ed pg pp w = (Inl (Exc TypeError m), w)"
    if "(truthy tg \<and> \<not> isinstance tg TList) \<or> (truthy pg \<and> \<not> isinstance pg TInt)
     \<or> (truthy pp \<and> \<not> isinstance pp TInt) \<or> (truthy sd \<and> \<not> isinstance sd TStr)
     \<or> (truthy ed \<and> \<not> isinstance ed TStr)
     \<or> (truthy ci \<and> \<not> isinstance ci TInt) \<or> (truthy mp \<and> \<not> isinstance mp TInt)"
  proof -
    from that have "\<exists>m. processed_reports_validate s mp ci sd tg ed pg pp = Some (Exc TypeError m)"
      unfolding processed_reports_validate_def type_error_def by (simp split: if_splits) blast
    then show ?thesis by (auto simp: processed_reports_def processed_reports_request_def)
  qed
  show "\<exists>m. inbox_reports env s mp sd ed pg pp w = (Inl (Exc TypeError m), w)"
    if "(truthy pg \<and> \<not> isinstance pg TInt)
     \<or> (truthy pp \<and> \<not> isinstance pp TInt) \<or> (truthy sd \<and> \<not> isinstance sd TStr)
     \<or> (truthy ed \<and> \<not> isinstance ed TStr) \<or> (truthy mp \<and> \<not> isinstance mp TInt)"
  proof -
    from that have "\<exists>m. inbox_reports_validate s mp sd ed pg pp = Some (Exc TypeError m)"
      unfolding inbox_reports_validate_def type_error_def by (simp split: if_splits) blast
    then show ?thesis by (auto simp: inbox_reports_def inbox_reports_request_def)
  qed
  show "\<exists>m. attachment env s aid mt w = (Inl (Exc TypeError m), w)"
    if "\<not> isinstance mt TStr \<or> \<not> isinstance aid TInt"
    using that by (auto simp: attachment_def attachment_request_def type_error_def)
  show "\<exists>m. integration_search env s sha md5 su w = (Inl (Exc TypeError m), w)"
    if "(truthy sha \<and> \<not> isinstance sha TStr) \<or> (truthy md5 \<and> \<not> isinstance md5 TStr)
      \<or> (truthy su \<and> \<not> isinstance su TStr)"
    using integration_search_params_wrong_type [OF that]
    by (auto simp: integration_search_def integration_search_request_def)
  show "\<exists>m. clusters env s mp sd ed pg pp tg w = (Inl (Exc TypeError m), w)"
    if "(truthy tg \<and> \<not> isinstance tg TStr) \<or> (truthy pg \<and> \<not> isinstance pg TInt)
     \<or> (truthy pp \<and> \<not> isinstance pp TInt) \<or> (truthy sd \<and> \<not> isinstance sd TStr)
     \<or> (truthy ed \<and> \<not> isinstance ed TStr) \<or> (truthy mp \<and> \<not> isinstance mp TInt)"
  proof -
    from that have "\<exists>m. clusters_validate s mp sd ed pg pp tg = Some (Exc TypeError m)"
      unfolding clusters_validate_def type_error_def by (simp split: if_splits) blast
    then show ?thesis by (auto simp: clusters_def clusters_request_def)
  qed
qed

text \<open>
  C3. The claim asks for an error that names the offending parameter. In
  \<^verbatim>\<open>integration_search\<close> the query is built before anything is checked, so a
  truthy argument that is not a string fails in the concatenation: \<^verbatim>\<open>sha256=5\<close>
  raises the interpreter's own \<^verbatim>\<open>TypeError\<close>, whose message names no parameter.
  Nothing is sent.
\<close>

theorem integration_search_wrong_type_message:
  "integration_search (demo_env 200 ''[]'') demo_session (PInt 5) PNone PNone []
     = (Inl (Exc TypeError
               (''can only concatenate str (not '' @ dquote @ ''int'' @ dquote @ '') to str'')),
        [])"
  by code_simp

section \<open>A report fetched by its identifier\<close>

lemma digit_char_decimal: "d < 10 \<Longrightarrow> digit_char d \<in> set ''0123456789''"
proof -
  assume "d < 10"
  then have "d \<in> {0, 1, 2, 3, 4, 5, 6, 7, 8, 9}" by auto
  then show ?thesis by (auto simp: digit_char_def)
qed

lemma str_nat_decimal: "set (str_nat n) \<subseteq> set ''0123456789''"
proof (induction n rule: str_nat.induct)
  case (1 n)
  show ?case
  proof (cases "n < 10")
    case True
    then show ?thesis using digit_char_decimal [of n] by (subst str_nat.simps) simp
  next
    case False
    have "n mod 10 < 10" by simp
    from digit_char_decimal [OF this] "1.IH" [OF False] False show ?thesis
      by (subst str_nat.simps) simp
  qed
qed

lemma str_int_no_question: "CHR ''?'' \<notin> set (str_int i)"
  using str_nat_decimal [of "nat i"] str_nat_decimal [of "nat (- i)"]
  by (auto simp: str_int_def)

lemma py_str_int_no_question: "isinstance v TInt \<Longrightarrow> CHR ''?'' \<notin> set (py_str v)"
  by (cases v) (auto simp: isinstance_def str_int_no_question)

lemma url_query_None: "CHR ''?'' \<notin> set u \<Longrightarrow> url_query u = None"
  by (simp add: url_query_def)

text \<open>
  C5. Whenever \<^verbatim>\<open>reports\<close> gets as far as building a request and \<^verbatim>\<open>report_id\<close> is
  truthy, the URL is the endpoint followed by \<^verbatim>\<open>/reports/\<close> and the identifier,
  whatever the other filters are, and it has no query string (the host holding no
  \<^verbatim>\<open>?\<close> of its own); when \<^verbatim>\<open>report_id\<close> is falsy the URL is the list form with
  the supplied filters as its query.
\<close>

theorem reports_by_id:
  assumes "reports_request s mp ci sd tg ed pg pp rid = Inr req"
  shows "(truthy rid \<longrightarrow>
            req_url req = api_url s (''reports/'' @ py_str rid)
            \<and> (CHR ''?'' \<notin> set (py_str (triagehost s)) \<longrightarrow> url_query (req_url req) = None))
     \<and> (\<not> truthy rid \<longrightarrow>
            req_url req = with_query (api_url s ''reports'')
              (query_segments [(''tags'', tg), (''page'', pg), (''per_page'', pp),
                 (''start_date'', sd), (''end_date'', ed), (''match_priority'', mp),
                 (''category_id'', ci)]))"
proof -
  from assms obtain ps where v: "reports_validate s mp ci sd tg ed pg pp rid = None"
    and p: "reports_params mp ci sd tg ed pg pp = Inr ps"
    and u: "req_url req = reports_url s ps rid"
    by (auto simp: reports_request_def split: option.splits sum.splits)
  from v have int: "truthy rid \<Longrightarrow> isinstance rid TInt"
    by (simp add: reports_validate_def split: if_splits)
  have "req_url req = api_url s (''reports/'' @ py_str rid)" if "truthy rid"
    using that u by (simp add: reports_url_def)
  moreover have "url_query (req_url req) = None"
    if "truthy rid" "CHR ''?'' \<notin> set (py_str (triagehost s))"
  proof -
    from that(1) u have "req_url req = api_url s (''reports/'' @ py_str rid)"
      by (simp add: reports_url_def)
    with that(2) py_str_int_no_question [OF int [OF that(1)]] show ?thesis
      by (simp add: url_query_def api_url_def)
  qed
  moreover have "req_url req = with_query (api_url s ''reports'')
              (query_segments [(''tags'', tg), (''page'', pg), (''per_page'', pp),
                 (''start_date'', sd), (''end_date'', ed), (''match_priority'', mp),
                 (''category_id'', ci)])" if "\<not> truthy rid"
    using u by (simp only: reports_params_segments [OF v p, symmetric] reports_url_list [OF that])
  ultimately show ?thesis by blast
qed

theorem reports_by_id_witness:
  "reports_request demo_session (PInt 3) PNone (PStr ''2019-01-01'') (PList [PStr ''a''])
       PNone (PInt 2) PNone (PInt 42)
     = Inr \<lparr>req_method = ''GET'',
            req_url = ''https://triage.example.org/api/public/v1/reports/42'',
            req_headers = with_content_type demo_session ''application/json''\<rparr>
   \<and> url_query ''https://triage.example.org/api/public/v1/reports/42'' = None
   \<and> reports_request demo_session PNone PNone PNone PNone PNone (PInt 2) PNone PNone
     = Inr \<lparr>req_method = ''GET'',
            req_url = ''https://triage.example.org/api/public/v1/reports?page=2'',
            req_headers = with_content_type demo_session ''application/json''\<rparr>"
proof -
  have h: "reports_request demo_session (PInt 3) PNone (PStr ''2019-01-01'') (PList [PStr ''a''])
       PNone (PInt 2) PNone (PInt 42)
     = Inr \<lparr>req_method = ''GET'',
            req_url = ''https://triage.example.org/api/public/v1/reports/42'',
            req_headers = with_content_type demo_session ''application/json''\<rparr>"
    by code_simp
  have g: "reports_request demo_session PNone PNone PNone PNone PNone (PInt 2) PNone PNone
     = Inr \<lparr>req_method = ''GET'',
            req_url = ''https://triage.example.org/api/public/v1/reports?page=2'',
            req_headers = with_content_type demo_session ''application/json''\<rparr>"
    by code_simp
  have t: "truthy (PInt 42)" "\<not> truthy PNone"
    "CHR ''?'' \<notin> set (py_str (triagehost demo_session))"
    by (simp_all add: demo_session_def)
  from reports_by_id [OF h] t
  have "url_query (req_url \<lparr>req_method = ''GET'',
            req_url = ''https://triage.example.org/api/public/v1/reports/42'',
            req_headers = with_content_type demo_session ''application/json''\<rparr>) = None"
    by blast
  then have "url_query ''https://triage.example.org/api/public/v1/reports/42'' = None"
    by simp
  with h g show ?thesis by simp
qed

section \<open>Parsing the body\<close>

lemma reqsend_200:
  "send env req = Inr resp \<Longrightarrow> status_code resp = 200
     \<Longrightarrow> reqsend env s req host w = (Inr resp, w @ [req])"
  by (simp add: reqsend_def classify_def)

lemma fetch_json_200:
  "send env req = Inr resp \<Longrightarrow> status_code resp = 200
     \<Longrightarrow> fetch_json env s req w = (parse env s (resp_text resp), w @ [req])"
  by (simp add: fetch_json_def reqsend_200)

text \<open>
  C7. In each of the five JSON methods, once the request is answered with status 200 the
  result is decided by the parser alone: a body it rejects raises \<^verbatim>\<open>TriageError\<close>
  itself, with a message that spells out the session's host, and a body it accepts is
  returned as decoded.
\<close>

theorem json_body_parsing:
  assumes "send env req = Inr resp" and "status_code resp = 200"
  shows "(reports_request s mp ci sd tg ed pg pp rid = Inr req \<longrightarrow>
            fst (reports env s mp ci sd tg ed pg pp rid w)
              = (case loads env (resp_text resp) of
                   None \<Rightarrow> Inl (Exc TriageError (json_error_msg s)) | Some res \<Rightarrow> Inr res))
     \<and> (processed_reports_request s mp ci sd tg ed pg pp = Inr req \<longrightarrow>
            fst (processed_reports env s mp ci sd tg ed pg pp w)
              = (case loads env (resp_text resp) of
                   None \<Rightarrow> Inl (Exc TriageError (json_error_msg s)) | Some res \<Rightarrow> Inr res))
     \<and> (inbox_reports_request s mp sd ed pg pp = Inr req \<longrightarrow>
            fst (inbox_reports env s mp sd ed pg pp w)
              = (case loads env (resp_text resp) of
                   None \<Rightarrow> Inl (Exc TriageError (json_error_msg s)) | Some res \<Rightarrow> Inr res))
     \<and> (integration_search_request s sha md5 su = Inr req \<longrightarrow>
            fst (integration_search env s sha md5 su w)
              = (case loads env (resp_text resp) of
                   None \<Rightarrow> Inl (Exc TriageError (json_error_msg s)) | Some res \<Rightarrow> Inr res))
     \<and> (clusters_request s mp sd ed pg pp tg = Inr req \<longrightarrow>
            fst (clusters env s mp sd ed pg pp tg w)
              = (case loads env (resp_text resp) of
                   None \<Rightarrow> Inl (Exc TriageError (json_error_msg s)) | Some res \<Rightarrow> Inr res))
     \<and> json_error_msg s
          = ''triagelib: Triage box '' @ py_str (triagehost s)
              @ '' did not return a valid json output.''"
  using fetch_json_200 [OF assms, of s w]
  by (simp add: reports_def processed_reports_def inbox_reports_def integration_search_def
      clusters_def parse_def json_error_msg_def name_of_module_def)

theorem json_body_parsing_witness:
  "fst (reports (demo_env 200 ''not json'') demo_session PNone PNone PNone PNone PNone PNone PNone
          PNone [])
     = Inl (Exc TriageError
              ''triagelib: Triage box triage.example.org did not return a valid json output.'')
   \<and> fst (clusters (demo_env 200 ''[]'') demo_session PNone PNone PNone PNone PNone PNone [])
     = Inr 0"
proof -
  have r: "reports_request demo_session PNone PNone PNone PNone PNone PNone PNone PNone
      = Inr demo_request"
    by code_simp
  have c: "clusters_request demo_session PNone PNone PNone PNone PNone PNone
      = Inr \<lparr>req_method = ''GET'',
             req_url = ''https://triage.example.org/api/public/v1/clusters'',
             req_headers = with_content_type demo_session ''application/json''\<rparr>"
    by code_simp
  have s1: "send (demo_env 200 ''not json'') demo_request = Inr (demo_response 200 ''not json'')"
    and s2: "send (demo_env 200 ''[]'')
       \<lparr>req_method = ''GET'',
        req_url = ''https://triage.example.org/api/public/v1/clusters'',
        req_headers = with_content_type demo_session ''application/json''\<rparr>
      = Inr (demo_response 200 ''[]'')"
    and st: "status_code (demo_response 200 ''not json'') = 200"
      "status_code (demo_response 200 ''[]'') = 200"
    by (simp_all add: demo_env_def demo_response_def)
  from json_body_parsing [OF s1 st(1), where s = demo_session and mp = PNone and ci = PNone
      and sd = PNone and tg = PNone and ed = PNone and pg = PNone and pp = PNone and rid = PNone
      and w = "[]"] r
  have "fst (reports (demo_env 200 ''not json'') demo_session PNone PNone PNone PNone PNone PNone
          PNone PNone [])
     = Inl (Exc TriageError
              ''triagelib: Triage box triage.example.org did not return a valid json output.'')"
    by (simp add: demo_env_def demo_response_def demo_session_def)
  moreover from json_body_parsing [OF s2 st(2), where s = demo_session and mp = PNone and sd = PNone
      and tg = PNone and ed = PNone and pg = PNone and pp = PNone and w = "[]"] c
  have "fst (clusters (demo_env 200 ''[]'') demo_session PNone PNone PNone PNone PNone PNone [])
     = Inr 0"
    by (simp add: demo_env_def demo_response_def)
  ultimately show ?thesis by simp
qed

section \<open>Downloading an attachment\<close>

lemma map_of_with_content_type: "map_of (with_content_type s t) ''Content-Type'' = Some t"
  by (simp add: with_content_type_def update_conv')

lemma reqsend_log: "snd (reqsend env s req host w) = w @ [req]"
  by (simp add: reqsend_def split: sum.splits)

lemma fetch_json_log: "snd (fetch_json env s req w) = w @ [req]"
  using reqsend_log [of env s req "triagehost s" w]
  by (cases "reqsend env s req (triagehost s) w")
    (auto simp: fetch_json_def split: sum.splits)

lemma reqsend_ignores_loads:
  "reqsend (env\<lparr>loads := l\<rparr>) s req host w = reqsend env s req host w"
  by (simp add: reqsend_def)

text \<open>
  C8. With string credentials, an integer \<^verbatim>\<open>attachment_id\<close> and a string
  \<^verbatim>\<open>mime_type\<close>, \<^verbatim>\<open>attachment\<close> builds a \<^verbatim>\<open>GET\<close> request whose
  \<^verbatim>\<open>Content-Type\<close> is the caller's \<^verbatim>\<open>mime_type\<close> and whose URL ends in
  \<^verbatim>\<open>attachment/\<close> and the identifier; answered with status 200, it returns the
  response's bytes as they are, and the JSON parser plays no part in its result.
\<close>

theorem attachment_raw_bytes:
  assumes "isinstance (email s) TStr" and "isinstance (apikey s) TStr"
    and "isinstance attachment_id TInt" and "mime_type = PStr mt"
  shows "\<exists>req. attachment_request s attachment_id mime_type = Inr req
      \<and> req_method req = ''GET''
      \<and> map_of (req_headers req) ''Content-Type'' = Some mt
      \<and> req_url req = api_url s (''attachment/'' @ py_str attachment_id)
      \<and> (\<forall>resp. send env req = Inr resp \<longrightarrow> status_code resp = 200 \<longrightarrow>
            attachment env s attachment_id mime_type w = (Inr (content resp), w @ [req]))
      \<and> (\<forall>l. attachment (env\<lparr>loads := l\<rparr>) s attachment_id mime_type w
            = attachment env s attachment_id mime_type w)"
proof -
  let ?req = "\<lparr>req_method = ''GET'',
      req_url = api_url s (''attachment/'' @ py_str attachment_id),
      req_headers = with_content_type s mt\<rparr>"
  from assms have r: "attachment_request s attachment_id mime_type = Inr ?req"
    by (simp add: attachment_request_def isinstance_def)
  have "attachment env s attachment_id mime_type w = (Inr (content resp), w @ [?req])"
    if "send env ?req = Inr resp" "status_code resp = 200" for resp
    using r reqsend_200 [OF that, of s "triagehost s" w] by (simp add: attachment_def)
  moreover have "attachment (env\<lparr>loads := l\<rparr>) s attachment_id mime_type w
      = attachment env s attachment_id mime_type w" for l
    by (simp add: attachment_def reqsend_ignores_loads split: sum.splits)
  ultimately show ?thesis
    using r map_of_with_content_type [of s mt] by simp
qed

theorem attachment_raw_bytes_witness:
  "attachment (demo_env 200 ''%PDF-1.4'') demo_session (PInt 7) (PStr ''application/pdf'') []
     = (Inr ''%PDF-1.4'',
        [\<lparr>req_method = ''GET'',
          req_url = ''https://triage.example.org/api/public/v1/attachment/7'',
          req_headers = with_content_type demo_session ''application/pdf''\<rparr>])"
proof -
  have c: "isinstance (email demo_session) TStr" "isinstance (apikey demo_session) TStr"
    "isinstance (PInt 7) TInt" "PStr ''application/pdf'' = PStr ''application/pdf''"
    by (simp_all add: demo_session_def isinstance_def)
  from attachment_raw_bytes [OF c, of "demo_env 200 ''%PDF-1.4''" "[]"]
  obtain req where r: "attachment_request demo_session (PInt 7) (PStr ''application/pdf'') = Inr req"
    and a: "\<forall>resp. send (demo_env 200 ''%PDF-1.4'') req = Inr resp \<longrightarrow> status_code resp = 200 \<longrightarrow>
        attachment (demo_env 200 ''%PDF-1.4'') demo_session (PInt 7) (PStr ''application/pdf'') []
          = (Inr (content resp), [] @ [req])"
    by blast
  have "attachment_request demo_session (PInt 7) (PStr ''application/pdf'')
      = Inr \<lparr>req_method = ''GET'',
          req_url = ''https://triage.example.org/api/public/v1/attachment/7'',
          req_headers = with_content_type demo_session ''application/pdf''\<rparr>"
    by code_simp
  with r have "req = \<lparr>req_method = ''GET'',
          req_url = ''https://triage.example.org/api/public/v1/attachment/7'',
          req_headers = with_content_type demo_session ''application/pdf''\<rparr>"
    by simp
  with a show ?thesis by (simp add: demo_env_def demo_response_def)
qed

section \<open>Presence of the arguments of integration\_search\<close>



section \<open>Headers and scheme of every request\<close>

lemma request_sent_built:
  "req \<in> set (snd (reports env s mp ci sd tg ed pg pp rid []))
     \<Longrightarrow> reports_request s mp ci sd tg ed pg pp rid = Inr req"
  "req \<in> set (snd (processed_reports env s mp ci sd tg ed pg pp []))
     \<Longrightarrow> processed_reports_request s mp ci sd tg ed pg pp = Inr req"
  "req \<in> set (snd (inbox_reports env s mp sd ed pg pp []))
     \<Longrightarrow> inbox_reports_request s mp sd ed pg pp = Inr req"
  "req \<in> set (snd (attachment env s aid mt []))
     \<Longrightarrow> attachment_request s aid mt = Inr req"
  "req \<in> set (snd (integration_search env s sha md5 su []))
     \<Longrightarrow> integration_search_request s sha md5 su = Inr req"
  "req \<in> set (snd (clusters env s mp sd ed pg pp tg []))
     \<Longrightarrow> clusters_request s mp sd ed pg pp tg = Inr req"
proof -
  have att: "snd (case reqsend env s r (triagehost s) [] of
        (Inl e, w') \<Rightarrow> (Inl e, w')
      | (Inr resp, w') \<Rightarrow> (Inr (content resp), w')) = [r]" for r
    using reqsend_log [of env s r "triagehost s" "[]"]
    by (cases "reqsend env s r (triagehost s) []") (auto split: sum.splits)
  show "req \<in> set (snd (reports env s mp ci sd tg ed pg pp rid []))
     \<Longrightarrow> reports_request s mp ci sd tg ed pg pp rid = Inr req"
    by (cases "reports_request s mp ci sd tg ed pg pp rid")
      (simp_all add: reports_def fetch_json_log)
  show "req \<in> set (snd (processed_reports env s mp ci sd tg ed pg pp []))
     \<Longrightarrow> processed_reports_request s mp ci sd tg ed pg pp = Inr req"
    by (cases "processed_reports_request s mp ci sd tg ed pg pp")
      (simp_all add: processed_reports_def fetch_json_log)
  show "req \<in> set (snd (inbox_reports env s mp sd ed pg pp []))
     \<Longrightarrow> inbox_reports_request s mp sd ed pg pp = Inr req"
    by (cases "inbox_reports_request s mp sd ed pg pp")
      (simp_all add: inbox_reports_def fetch_json_log)
  show "req \<in> set (snd (attachment env s aid mt []))
     \<Longrightarrow> attachment_request s aid mt = Inr req"
    by (cases "attachment_request s aid mt") (simp_all add: attachment_def att)
  show "req \<in> set (snd (integration_search env s sha md5 su []))
     \<Longrightarrow> integration_search_request s sha md5 su = Inr req"
    by (cases "integration_search_request s sha md5 su")
      (simp_all add: integration_search_def fetch_json_log)
  show "req \<in> set (snd (clusters env s mp sd ed pg pp tg []))
     \<Longrightarrow> clusters_request s mp sd ed pg pp tg = Inr req"
    by (cases "clusters_request s mp sd ed pg pp tg")
      (simp_all add: clusters_def fetch_json_log)
qed

text \<open>What every request a method builds has in common.\<close>

lemma request_built_shape:
  "reports_request s mp ci sd tg ed pg pp rid = Inr req
     \<Longrightarrow> isinstance (email s) TStr \<and> isinstance (apikey s) TStr
       \<and> (\<exists>t. req_headers req = with_content_type s t) \<and> (\<exists>path. req_url req = api_url s path)"
  "processed_reports_request s mp ci sd tg ed pg pp = Inr req
     \<Longrightarrow> isinstance (email s) TStr \<and> isinstance (apikey s) TStr
       \<and> (\<exists>t. req_headers req = with_content_type s t) \<and> (\<exists>path. req_url req = api_url s path)"
  "inbox_reports_request s mp sd ed pg pp = Inr req
     \<Longrightarrow> isinstance (email s) TStr \<and> isinstance (apikey s) TStr
       \<and> (\<exists>t. req_headers req = with_content_type s t) \<and> (\<exists>path. req_url req = api_url s path)"
  "attachment_request s aid mt = Inr req
     \<Longrightarrow> isinstance (email s) TStr \<and> isinstance (apikey s) TStr
       \<and> (\<exists>t. req_headers req = with_content_type s t) \<and> (\<exists>path. req_url req = api_url s path)"
  "integration_search_request s sha md5 su = Inr req
     \<Longrightarrow> isinstance (email s) TStr \<and> isinstance (apikey s) TStr
       \<and> (\<exists>t. req_headers req = with_content_type s t) \<and> (\<exists>path. req_url req = api_url s path)"
  "clusters_request s mp sd ed pg pp tg = Inr req
     \<Longrightarrow> isinstance (email s) TStr \<and> isinstance (apikey s) TStr
       \<and> (\<exists>t. req_headers req = with_content_type s t) \<and> (\<exists>path. req_url req = api_url s path)"
proof -
  assume "reports_request s mp ci sd tg ed pg pp rid = Inr req"
  then obtain ps where v: "reports_validate s mp ci sd tg ed pg pp rid = None"
    and r: "req = \<lparr>req_method = ''GET'', req_url = reports_url s ps rid,
      req_headers = with_content_type s ''application/json''\<rparr>"
    by (auto simp: reports_request_def split: option.splits sum.splits)
  from v have "isinstance (email s) TStr \<and> isinstance (apikey s) TStr"
    by (simp add: reports_validate_def split: if_splits)
  moreover have "\<exists>path. reports_url s ps rid = api_url s path"
    by (auto simp: reports_url_def)
  ultimately show "isinstance (email s) TStr \<and> isinstance (apikey s) TStr
       \<and> (\<exists>t. req_headers req = with_content_type s t) \<and> (\<exists>path. req_url req = api_url s path)"
    using r by auto
next
  assume "processed_reports_request s mp ci sd tg ed pg pp = Inr req"
  then obtain ps where v: "processed_reports_validate s mp ci sd tg ed pg pp = None"
    and r: "req = \<lparr>req_method = ''GET'', req_url = list_url s ''processed_reports'' ps,
      req_headers = with_content_type s ''application/json''\<rparr>"
    by (auto simp: processed_reports_request_def split: option.splits sum.splits)
  from v have "isinstance (email s) TStr \<and> isinstance (apikey s) TStr"
    by (simp add: processed_reports_validate_def split: if_splits)
  moreover have "\<exists>path. list_url s ''processed_reports'' ps = api_url s path"
    by (auto simp: list_url_def)
  ultimately show "isinstance (email s) TStr \<and> isinstance (apikey s) TStr
       \<and> (\<exists>t. req_headers req = with_content_type s t) \<and> (\<exists>path. req_url req = api_url s path)"
    using r by auto
next
  assume "inbox_reports_request s mp sd ed pg pp = Inr req"
  then obtain ps where v: "inbox_reports_validate s mp sd ed pg pp = None"
    and r: "req = \<lparr>req_method = ''GET'', req_url = list_url s ''inbox_reports'' ps,
      req_headers = with_content_type s ''application/json''\<rparr>"
    by (auto simp: inbox_reports_request_def split: option.splits sum.splits)
  from v have "isinstance (email s) TStr \<and> isinstance (apikey s) TStr"
    by (simp add: inbox_reports_validate_def split: if_splits)
  moreover have "\<exists>path. list_url s ''inbox_reports'' ps = api_url s path"
    by (auto simp: list_url_def)
  ultimately show "isinstance (email s) TStr \<and> isinstance (apikey s) TStr
       \<and> (\<exists>t. req_headers req = with_content_type s t) \<and> (\<exists>path. req_url req = api_url s path)"
    using r by auto
next
  assume "attachment_request s aid mt = Inr req"
  then show "isinstance (email s) TStr \<and> isinstance (apikey s) TStr
       \<and> (\<exists>t. req_headers req = with_content_type s t) \<and> (\<exists>path. req_url req = api_url s path)"
    by (auto simp: attachment_request_def split: if_splits)
next
  assume "integration_search_request s sha md5 su = Inr req"
  then obtain ps where v: "integration_search_validate s sha md5 su = None"
    and r: "req = \<lparr>req_method = ''GET'',
      req_url = api_url s (''integration_search?'' @ join_strs ''&'' ps),
      req_headers = with_content_type s ''application/json''\<rparr>"
    by (auto simp: integration_search_request_def split: option.splits sum.splits)
  from v have "isinstance (email s) TStr \<and> isinstance (apikey s) TStr"
    by (simp add: integration_search_validate_def split: if_splits)
  then show "isinstance (email s) TStr \<and> isinstance (apikey s) TStr
       \<and> (\<exists>t. req_headers req = with_content_type s t) \<and> (\<exists>path. req_url req = api_url s path)"
    using r by auto
next
  assume "clusters_request s mp sd ed pg pp tg = Inr req"
  then obtain ps where v: "clusters_validate s mp sd ed pg pp tg = None"
    and r: "req = \<lparr>req_method = ''GET'', req_url = list_url s ''clusters'' ps,
      req_headers = with_content_type s ''application/json''\<rparr>"
    by (auto simp: clusters_request_def split: option.splits sum.splits)
  from v have "isinstance (email s) TStr \<and> isinstance (apikey s) TStr"
    by (simp add: clusters_validate_def split: if_splits)
  moreover have "\<exists>path. list_url s ''clusters'' ps = api_url s path"
    by (auto simp: list_url_def)
  ultimately show "isinstance (email s) TStr \<and> isinstance (apikey s) TStr
       \<and> (\<exists>t. req_headers req = with_content_type s t) \<and> (\<exists>path. req_url req = api_url s path)"
    using r by auto
qed

lemma isinstance_TStr: "isinstance v TStr \<Longrightarrow> \<exists>t. v = PStr t"
  by (cases v) (simp_all add: isinstance_def)

lemma isinstance_TBool: "isinstance v TBool \<Longrightarrow> \<exists>b. v = PBool b"
  by (cases v) (simp_all add: isinstance_def)

lemma init_headers:
  assumes "TriageSession_init host eml key ssl uag = Inr s"
    and "isinstance (email s) TStr" and "isinstance (apikey s) TStr"
    and "req_headers req = with_content_type s t" and "req_url req = api_url s path"
  shows "\<exists>e k u. eml = PStr e \<and> key = PStr k \<and> uag = PStr u
      \<and> map_of (req_headers req) ''Accept'' = Some ''application/vnd.ve.v1.0+json''
      \<and> map_of (req_headers req) ''VE-API-Version'' = Some apiver
      \<and> map_of (req_headers req) ''user-agent'' = Some u
      \<and> map_of (req_headers req) ''Authorization'' = Some (''Token token='' @ e @ '':'' @ k)
      \<and> req_url req = (if ssl = PBool True then ''https'' else ''http'') @ ''://''
            @ py_str host @ ''/api/public/v1/'' @ path"
proof -
  from assms(1) have b: "isinstance ssl TBool" and u: "isinstance uag TStr"
    by (simp_all add: TriageSession_init_def split: if_splits)
  from isinstance_TBool [OF b] isinstance_TStr [OF u] obtain bv uv
    where ssl: "ssl = PBool bv" and uag: "uag = PStr uv" by blast
  from assms(1) b u have s: "s = \<lparr>triagehost = host, usessl = truthy ssl, userag = py_str uag,
      email = eml, apikey = key,
      headers = [(''Accept'', ''application/vnd.ve.v1.0+json''), (''VE-API-Version'', apiver),
                 (''user-agent'', py_str uag),
                 (''Authorization'', ''Token token='' @ py_str eml @ '':'' @ py_str key)]\<rparr>"
    by (simp add: TriageSession_init_def)
  from assms(2,3) s isinstance_TStr [of eml] isinstance_TStr [of key] obtain e k
    where ek: "eml = PStr e" "key = PStr k" by auto
  show ?thesis
    using assms(4,5) by (simp add: s ek ssl uag with_content_type_def update_conv' api_url_def)
qed

text \<open>
  C9. On a session made by the constructor, every request that any of the six methods
  hands to the transport carries the versioned \<^verbatim>\<open>Accept\<close> type, the implemented
  API version, the user agent, and \<^verbatim>\<open>Authorization: Token token=email:apikey\<close>
  (both credentials being strings, or nothing would have been sent); its URL starts with
  \<^verbatim>\<open>https\<close> when \<^verbatim>\<open>ssl\<close> is \<^verbatim>\<open>True\<close> and with \<^verbatim>\<open>http\<close> otherwise.
\<close>

theorem every_request_carries_credentials:
  assumes "TriageSession_init host eml key ssl uag = Inr s"
    and "req \<in> set (snd (reports env s mp ci sd tg ed pg pp rid []))
       \<or> req \<in> set (snd (processed_reports env s mp ci sd tg ed pg pp []))
       \<or> req \<in> set (snd (inbox_reports env s mp sd ed pg pp []))
       \<or> req \<in> set (snd (attachment env s aid mt []))
       \<or> req \<in> set (snd (integration_search env s sha md5 su []))
       \<or> req \<in> set (snd (clusters env s mp sd ed pg pp tg []))"
  shows "\<exists>e k u path. eml = PStr e \<and> key = PStr k \<and> uag = PStr u
      \<and> map_of (req_headers req) ''Accept'' = Some ''application/vnd.ve.v1.0+json''
      \<and> map_of (req_headers req) ''VE-API-Version'' = Some apiver
      \<and> map_of (req_headers req) ''user-agent'' = Some u
      \<and> map_of (req_headers req) ''Authorization'' = Some (''Token token='' @ e @ '':'' @ k)
      \<and> req_url req = (if ssl = PBool True then ''https'' else ''http'') @ ''://''
            @ py_str host @ ''/api/public/v1/'' @ path"
proof -
  from assms(2) have "isinstance (email s) TStr \<and> isinstance (apikey s) TStr
       \<and> (\<exists>t. req_headers req = with_content_type s t) \<and> (\<exists>path. req_url req = api_url s path)"
  proof (elim disjE)
    assume "req \<in> set (snd (reports env s mp ci sd tg ed pg pp rid []))"
    from request_built_shape(1) [OF request_sent_built(1) [OF this]] show ?thesis .
  next
    assume "req \<in> set (snd (processed_reports env s mp ci sd tg ed pg pp []))"
    from request_built_shape(2) [OF request_sent_built(2) [OF this]] show ?thesis .
  next
    assume "req \<in> set (snd (inbox_reports env s mp sd ed pg pp []))"
    from request_built_shape(3) [OF request_sent_built(3) [OF this]] show ?thesis .
  next
    assume "req \<in> set (snd (attachment env s aid mt []))"
    from request_built_shape(4) [OF request_sent_built(4) [OF this]] show ?thesis .
  next
    assume "req \<in> set (snd (integration_search env s sha md5 su []))"
    from request_built_shape(5) [OF request_sent_built(5) [OF this]] show ?thesis .
  next
    assume "req \<in> set (snd (clusters env s mp sd ed pg pp tg []))"
    from request_built_shape(6) [OF request_sent_built(6) [OF this]] show ?thesis .
  qed
  then obtain t path where "isinstance (email s) TStr" "isinstance (apikey s) TStr"
    "req_headers req = with_content_type s t" "req_url req = api_url s path"
    by blast
  from init_headers [OF assms(1) this] show ?thesis by blast
qed

theorem every_request_carries_credentials_witness:
  "TriageSession_init (PStr ''triage.example.org'') (PStr ''analyst@example.org'')
       (PStr ''0123abcd'') default_ssl default_uag = Inr demo_session
   \<and> snd (attachment (demo_env 200 ''%PDF-1.4'') demo_session (PInt 7) (PStr ''application/pdf'')
         [])
     = [\<lparr>req_method = ''GET'',
         req_url = ''https://triage.example.org/api/public/v1/attachment/7'',
         req_headers = with_content_type demo_session ''application/pdf''\<rparr>]
   \<and> map_of (with_content_type demo_session ''application/pdf'') ''Authorization''
     = Some ''Token token=analyst@example.org:0123abcd''
   \<and> map_of (with_content_type demo_session ''application/pdf'') ''Accept''
     = Some ''application/vnd.ve.v1.0+json''
   \<and> map_of (with_content_type demo_session ''application/pdf'') ''VE-API-Version''
     = Some ''1.0.0''
   \<and> map_of (with_content_type demo_session ''application/pdf'') ''user-agent''
     = Some ''Python CoFense Triage Client''"
proof -
  let ?req = "\<lparr>req_method = ''GET'',
         req_url = ''https://triage.example.org/api/public/v1/attachment/7'',
         req_headers = with_content_type demo_session ''application/pdf''\<rparr>"
  have i: "TriageSession_init (PStr ''triage.example.org'') (PStr ''analyst@example.org'')
       (PStr ''0123abcd'') default_ssl default_uag = Inr demo_session"
    by code_simp
  have a: "snd (attachment (demo_env 200 ''%PDF-1.4'') demo_session (PInt 7)
        (PStr ''application/pdf'') []) = [?req]"
    by code_simp
  then have m: "?req \<in> set (snd (reports (demo_env 200 ''%PDF-1.4'') demo_session PNone PNone
          PNone PNone PNone PNone PNone PNone []))
       \<or> ?req \<in> set (snd (processed_reports (demo_env 200 ''%PDF-1.4'') demo_session PNone PNone
          PNone PNone PNone PNone PNone []))
       \<or> ?req \<in> set (snd (inbox_reports (demo_env 200 ''%PDF-1.4'') demo_session PNone PNone PNone
          PNone PNone []))
       \<or> ?req \<in> set (snd (attachment (demo_env 200 ''%PDF-1.4'') demo_session (PInt 7)
          (PStr ''application/pdf'') []))
       \<or> ?req \<in> set (snd (integration_search (demo_env 200 ''%PDF-1.4'') demo_session PNone PNone
          PNone []))
       \<or> ?req \<in> set (snd (clusters (demo_env 200 ''%PDF-1.4'') demo_session PNone PNone PNone
          PNone PNone PNone []))"
    by simp
  from every_request_carries_credentials [OF i m] i a show ?thesis
    by (auto simp: default_uag_def apiver_def)
qed

section \<open>Falsy arguments\<close>






























end
